theory Spec2Isabelle
  imports Complex_Main
begin

section \<open>JavaScript values used by the two services\<close>

text \<open>
  A string that is absent (\<open>undefined\<close>) where the interface declares a plain string is
  modelled as the empty string: the services only ever test such a field for truthiness
  before using it, and \<open>undefined\<close> and the empty string are both falsy. A value that
  is optional in the source (\<open>field?:\<close>) is an \<open>option\<close>.
  A thrown \<open>Error\<close> is the left injection of a sum, carrying \<open>error.message\<close>.
  Clock readings and block numbers are integers. A field name that several interfaces
  share carries a prefix in all but one of them: \<open>r_\<close> in VoteSubmissionResponse,
  \<open>b_\<close> in BlockchainVoteResponse, \<open>q_\<close> in BlockchainVoteRequest.
\<close>

definition truthy :: "string \<Rightarrow> bool" where
  "truthy s \<longleftrightarrow> s \<noteq> []"

definition or_default :: "string option \<Rightarrow> string \<Rightarrow> string" where
  \<comment> \<open>\<open>x || d\<close> on an optional string\<close>
  "or_default x d = (case x of None \<Rightarrow> d | Some s \<Rightarrow> if truthy s then s else d)"

definition template :: "string option \<Rightarrow> string" where
  \<comment> \<open>an optional string inside a template literal\<close>
  "template x = (case x of None \<Rightarrow> ''undefined'' | Some s \<Rightarrow> s)"

definition digit_char :: "nat \<Rightarrow> char" where
  "digit_char d = ''0123456789abcdefghijklmnopqrstuvwxyz'' ! d"

function nat_to_radix :: "nat \<Rightarrow> nat \<Rightarrow> string" where
  "nat_to_radix b n =
     (if b < 2 \<or> n < b then [digit_char n]
      else nat_to_radix b (n div b) @ [digit_char (n mod b)])"
  by pat_completeness auto
termination
  by (relation "measure (\<lambda>(b, n). n)") auto

declare nat_to_radix.simps [simp del]

definition int_to_radix :: "nat \<Rightarrow> int \<Rightarrow> string" where
  \<comment> \<open>\<open>Number.prototype.toString(radix)\<close> on an integer, radix 2 to 36\<close>
  "int_to_radix b i =
     (if i < 0 then CHR ''-'' # nat_to_radix b (nat (- i)) else nat_to_radix b (nat i))"

definition is_space :: "char \<Rightarrow> bool" where
  "is_space c \<longleftrightarrow> c \<in> set [CHR '' '', CHR 0x09, CHR 0x0A, CHR 0x0B, CHR 0x0C, CHR 0x0D]"

definition digit_value :: "char \<Rightarrow> nat option" where
  "digit_value c =
     (let k = of_char c :: nat in
      if 48 \<le> k \<and> k \<le> 57 then Some (k - 48)
      else if 97 \<le> k \<and> k \<le> 122 then Some (k - 87)
      else if 65 \<le> k \<and> k \<le> 90 then Some (k - 55)
      else None)"

fun read_digits :: "nat \<Rightarrow> nat option \<Rightarrow> string \<Rightarrow> nat option" where
  "read_digits b acc [] = acc"
| "read_digits b acc (c # cs) =
     (case digit_value c of
        None \<Rightarrow> acc
      | Some d \<Rightarrow>
          if d < b then read_digits b (Some (case acc of None \<Rightarrow> d | Some a \<Rightarrow> a * b + d)) cs
          else acc)"

definition parseInt :: "string \<Rightarrow> int option" where
  \<comment> \<open>\<open>parseInt(s)\<close> without a radix argument; \<open>None\<close> is \<open>NaN\<close>\<close>
  "parseInt s =
     (let t = dropWhile is_space s;
          neg = (t \<noteq> [] \<and> hd t = CHR ''-'');
          u = (if t \<noteq> [] \<and> (hd t = CHR ''-'' \<or> hd t = CHR ''+'') then tl t else t);
          hex = (take 2 u = ''0x'' \<or> take 2 u = ''0X'');
          r = (if hex then read_digits 16 None (drop 2 u) else read_digits 10 None u)
      in case r of None \<Rightarrow> None | Some n \<Rightarrow> Some (if neg then - int n else int n))"

section \<open>The ledger client: real-blockchain-service.ts\<close>

record BlockchainVoteRequest =
  q_electionId :: string
  q_candidateId :: string
  q_voterAddress :: string
  q_contractAddress :: string

record BlockchainVoteResponse =
  b_success :: bool
  b_transactionHash :: "string option"
  b_blockNumber :: "int option"
  b_gasUsed :: "string option"
  b_error :: "string option"

record WalletInfo =
  address :: string
  privateKey :: string
  balance :: string

text \<open>What \<open>tx.wait()\<close> resolves to.\<close>

record receipt =
  hash :: string
  rc_blockNumber :: int
  gasUsed :: string

text \<open>
  The two private fields of the singleton that the methods read: whether
  \<open>this.provider\<close> is non-null, and the address of \<open>this.wallet\<close> when it is non-null.
\<close>

record RealBlockchainService =
  provider :: bool
  wallet :: "string option"

text \<open>
  Everything outside the process answers through an oracle: each method below takes the
  outcome of its calls into ethers (the thrown message, or the value returned) as an
  argument. For \<open>registerVoter\<close> and \<open>castVote\<close> it is the outcome of sending the
  transaction and waiting for its receipt.
\<close>

definition connectWallet ::
  "RealBlockchainService \<Rightarrow> string + string \<Rightarrow> string + string \<Rightarrow> string
     \<Rightarrow> (string + WalletInfo) \<times> RealBlockchainService" where
  "connectWallet bc new_wallet get_balance key =
     (if \<not> provider bc
      then (Inl (''Failed to connect wallet: '' @ ''Blockchain provider not initialized''), bc)
      else case new_wallet of
        Inl e \<Rightarrow> (Inl (''Failed to connect wallet: '' @ e), bc)
      | Inr a \<Rightarrow>
          (let bc1 = bc\<lparr>wallet := Some a\<rparr> in
           case get_balance of
             Inl e \<Rightarrow> (Inl (''Failed to connect wallet: '' @ e), bc1)
           | Inr bal \<Rightarrow> (Inr \<lparr>address = a, privateKey = key, balance = bal\<rparr>, bc1)))"

definition tx_failed :: "string \<Rightarrow> BlockchainVoteResponse" where
  "tx_failed e = \<lparr>b_success = False, b_transactionHash = None, b_blockNumber = None,
     b_gasUsed = None, b_error = Some e\<rparr>"

definition tx_included :: "receipt \<Rightarrow> BlockchainVoteResponse" where
  "tx_included rc = \<lparr>b_success = True, b_transactionHash = Some (hash rc),
     b_blockNumber = Some (rc_blockNumber rc), b_gasUsed = Some (gasUsed rc), b_error = None\<rparr>"

definition registerVoter ::
  "RealBlockchainService \<Rightarrow> string + receipt \<Rightarrow> string \<Rightarrow> BlockchainVoteResponse" where
  "registerVoter bc register_tx contractAddress =
     (case wallet bc of
        None \<Rightarrow> tx_failed ''Wallet not connected''
      | Some w \<Rightarrow> (case register_tx of Inl e \<Rightarrow> tx_failed e | Inr rc \<Rightarrow> tx_included rc))"

definition castVote ::
  "RealBlockchainService \<Rightarrow> string + receipt \<Rightarrow> BlockchainVoteRequest \<Rightarrow> BlockchainVoteResponse" where
  "castVote bc vote_tx request =
     (case wallet bc of
        None \<Rightarrow> tx_failed ''Wallet not connected''
      | Some w \<Rightarrow>
          (case parseInt (q_candidateId request) of
             None \<Rightarrow> tx_failed ''Invalid candidate ID''
           | Some candidate \<Rightarrow>
               (case vote_tx of Inl e \<Rightarrow> tx_failed e | Inr rc \<Rightarrow> tx_included rc)))"

text \<open>
  The two view calls. The body of the \<open>try\<close> block is a function of its own, so that the
  \<open>catch\<close> is visible; the result type keeps a left injection for a rejected promise.
  \<open>voters\<close> is the outcome of building the contract and calling \<open>contract.voters\<close>.
\<close>

definition voters_query :: "RealBlockchainService \<Rightarrow> string + bool \<Rightarrow> string + bool" where
  "voters_query bc voters =
     (if \<not> provider bc then Inl ''Blockchain provider not initialized'' else voters)"

definition isVoterRegistered ::
  "RealBlockchainService \<Rightarrow> string + bool \<Rightarrow> string \<Rightarrow> string \<Rightarrow> string + bool" where
  "isVoterRegistered bc voters contractAddress voterAddr =
     (case voters_query bc voters of Inl e \<Rightarrow> Inr False | Inr isRegistered \<Rightarrow> Inr isRegistered)"

definition hasVoterVoted ::
  "RealBlockchainService \<Rightarrow> string + bool \<Rightarrow> string \<Rightarrow> string \<Rightarrow> string + bool" where
  "hasVoterVoted bc voters contractAddress voterAddr =
     (case voters_query bc voters of Inl e \<Rightarrow> Inr False | Inr hasVoted \<Rightarrow> Inr hasVoted)"

section \<open>The submission coordinator: vote-submission.service.ts\<close>

text \<open>
  \<open>voterAddress\<close> and \<open>token\<close> are read by the service and passed by its caller although
  the interface does not declare them. \<open>position\<close> and \<open>metadata\<close> are never read.
\<close>

record VoteSubmissionRequest =
  electionId :: string
  candidateId :: string
  voterId :: string
  verificationCode :: string
  biometricHash :: string
  deviceId :: string
  timestamp :: int
  voterAddress :: string
  token :: string

record VoteSubmissionResponse =
  success :: bool
  r_voteId :: "string option"
  r_transactionHash :: "string option"
  r_blockNumber :: "int option"
  confirmationId :: "string option"
  message :: "string option"
  r_error :: "string option"
  retryAfter :: "nat option"

datatype submission_status = Pending | Processing | Confirmed | Failed | Rejected

record VoteSubmissionStatus =
  voteId :: string
  status :: submission_status
  transactionHash :: "string option"
  blockNumber :: "int option"
  confirmationCount :: "nat option"
  error :: "string option"
  submittedAt :: int
  confirmedAt :: "int option"

record VoteSubmissionService =
  submissionQueue :: "string \<rightharpoonup> VoteSubmissionRequest"
  statusCache :: "string \<rightharpoonup> VoteSubmissionStatus"
  retryAttempts :: "string \<rightharpoonup> nat"

definition maxRetries :: nat where
  "maxRetries = 3"

definition retryDelay :: nat where
  "retryDelay = 5000"

text \<open>
  The outcome of a \<open>fetch\<close>: it throws, or it resolves to a response with its \<open>ok\<close> flag,
  its \<open>statusText\<close> and what \<open>json()\<close> gives (a throw, or the one field the service reads).
\<close>

datatype fetched = FetchThrows string | Response bool string "string + string"

text \<open>
  What the outside world answers during one call of \<open>submitVote\<close>, in the order the
  call asks: the random suffix of the submission id, the clock readings, the backend's
  responses and the outcomes of the calls into ethers.
\<close>

record env =
  random_id :: string
  now_submitted :: int
  now_validation :: int
  v_election :: fetched
  v_voters :: "string + bool"
  b_election :: fetched
  b_profile :: fetched
  new_wallet :: "string + string"
  get_balance :: "string + string"
  voted_voters :: "string + bool"
  registered_voters :: "string + bool"
  register_tx :: "string + receipt"
  vote_tx :: "string + receipt"
  now_backend :: int
  backend_random :: real
  now_confirmed :: int

text \<open>The calls that leave the process, with what they returned.\<close>

datatype event =
    FetchElection
  | FetchProfile
  | ConnectWallet bool
  | HasVoterVoted "string + bool"
  | IsVoterRegistered "string + bool"
  | RegisterVoter bool
  | CastVote bool

definition is_transaction :: "event \<Rightarrow> bool" where
  "is_transaction ev = (case ev of RegisterVoter ok \<Rightarrow> True | CastVote ok \<Rightarrow> True | _ \<Rightarrow> False)"

record validation =
  valid :: bool
  v_message :: "string option"

definition invalid :: "string \<Rightarrow> validation" where
  "invalid m = \<lparr>valid = False, v_message = Some m\<rparr>"

definition valid_ok :: validation where
  "valid_ok = \<lparr>valid = True, v_message = None\<rparr>"

definition checkExistingVote :: "string \<Rightarrow> string \<Rightarrow> bool" where
  "checkExistingVote eid vid = False"

definition validateSubmission ::
  "RealBlockchainService \<Rightarrow> env \<Rightarrow> VoteSubmissionRequest \<Rightarrow> validation \<times> event list" where
  "validateSubmission bc env request =
     (if \<not> truthy (electionId request) \<or> \<not> truthy (candidateId request)
         \<or> \<not> truthy (voterId request)
      then (invalid ''Missing required fields'', [])
      else if \<not> truthy (verificationCode request) \<or> length (verificationCode request) \<noteq> 6
      then (invalid ''Invalid verification code'', [])
      else if \<not> truthy (biometricHash request) \<or> \<not> truthy (deviceId request)
      then (invalid ''Missing security credentials'', [])
      else if now_validation env - timestamp request > 5 * 60 * 1000
      then (invalid ''Submission expired'', [])
      else if checkExistingVote (electionId request) (voterId request)
      then (invalid ''User has already voted in this election'', [])
      else if truthy (voterAddress request) \<and> truthy (electionId request)
      then (case v_election env of
              FetchThrows e \<Rightarrow> (valid_ok, [FetchElection])
            | Response ok statusText json \<Rightarrow>
                if \<not> ok then (valid_ok, [FetchElection])
                else (case json of
                   Inl e \<Rightarrow> (valid_ok, [FetchElection])
                 | Inr contractAddress \<Rightarrow>
                     if \<not> truthy contractAddress then (valid_ok, [FetchElection])
                     else (case hasVoterVoted bc (v_voters env) contractAddress
                                  (voterAddress request) of
                        Inl e \<Rightarrow> (valid_ok, [FetchElection, HasVoterVoted (Inl e)])
                      | Inr hasVotedOnBlockchain \<Rightarrow>
                          if hasVotedOnBlockchain
                          then (invalid ''You have already voted in this election on the blockchain'',
                                [FetchElection, HasVoterVoted (Inr True)])
                          else (valid_ok, [FetchElection, HasVoterVoted (Inr False)]))))
      else (valid_ok, []))"

definition failure :: "string \<Rightarrow> VoteSubmissionResponse" where
  "failure e = \<lparr>success = False, r_voteId = None, r_transactionHash = None,
     r_blockNumber = None, confirmationId = None, message = None, r_error = Some e,
     retryAfter = None\<rparr>"

text \<open>
  \<open>submitToBlockchain\<close>, the body of its \<open>try\<close> block in three parts; a left injection is
  a throw. First part: the contract address, the wallet material, the wallet.
\<close>

definition submitToBlockchain_setup ::
  "RealBlockchainService \<Rightarrow> env \<Rightarrow> VoteSubmissionRequest
     \<Rightarrow> (string + string \<times> WalletInfo) \<times> RealBlockchainService \<times> event list" where
  "submitToBlockchain_setup bc env request =
     (case b_election env of
        FetchThrows e \<Rightarrow> (Inl e, bc, [FetchElection])
      | Response ok statusText json \<Rightarrow>
          if \<not> ok then (Inl (''Failed to get election details: '' @ statusText), bc, [FetchElection])
          else (case json of
             Inl e \<Rightarrow> (Inl e, bc, [FetchElection])
           | Inr contractAddress \<Rightarrow>
               if \<not> truthy contractAddress
               then (Inl ''Election contract address not found'', bc, [FetchElection])
               else (case b_profile env of
                  FetchThrows e \<Rightarrow> (Inl e, bc, [FetchElection, FetchProfile])
                | Response ok2 statusText2 json2 \<Rightarrow>
                    if \<not> ok2
                    then (Inl (''Failed to get user profile: '' @ statusText2), bc,
                          [FetchElection, FetchProfile])
                    else (case json2 of
                       Inl e \<Rightarrow> (Inl e, bc, [FetchElection, FetchProfile])
                     | Inr encrypted_private_key \<Rightarrow>
                         if \<not> truthy encrypted_private_key
                         then (Inl ''User wallet not found. Please contact administrator.'', bc,
                               [FetchElection, FetchProfile])
                         else (case connectWallet bc (new_wallet env) (get_balance env)
                                      encrypted_private_key of
                            (Inl e, bc1) \<Rightarrow>
                              (Inl e, bc1, [FetchElection, FetchProfile, ConnectWallet False])
                          | (Inr walletInfo, bc1) \<Rightarrow>
                              (Inr (contractAddress, walletInfo), bc1,
                               [FetchElection, FetchProfile, ConnectWallet True]))))))"

text \<open>Third part: the vote itself.\<close>

definition submitToBlockchain_cast ::
  "RealBlockchainService \<Rightarrow> env \<Rightarrow> VoteSubmissionRequest \<Rightarrow> string \<Rightarrow> WalletInfo
     \<Rightarrow> (string + VoteSubmissionResponse) \<times> event list" where
  "submitToBlockchain_cast bc env request contractAddress walletInfo =
     (let voteResult = castVote bc (vote_tx env)
            \<lparr>q_electionId = electionId request, q_candidateId = candidateId request,
             q_voterAddress = address walletInfo, q_contractAddress = contractAddress\<rparr>
      in if \<not> b_success voteResult
         then (Inl (''Vote casting failed: '' @ template (b_error voteResult)), [CastVote False])
         else (Inr \<lparr>success = True, r_voteId = None,
                    r_transactionHash = b_transactionHash voteResult,
                    r_blockNumber = b_blockNumber voteResult, confirmationId = None,
                    message = Some ''Real blockchain submission successful'', r_error = None,
                    retryAfter = None\<rparr>,
               [CastVote True]))"

text \<open>Second part: the duplicate-vote check and the registration.\<close>

definition submitToBlockchain_ledger ::
  "RealBlockchainService \<Rightarrow> env \<Rightarrow> VoteSubmissionRequest \<Rightarrow> string \<Rightarrow> WalletInfo
     \<Rightarrow> (string + VoteSubmissionResponse) \<times> event list" where
  "submitToBlockchain_ledger bc env request contractAddress walletInfo =
     (case hasVoterVoted bc (voted_voters env) contractAddress (address walletInfo) of
        Inl e \<Rightarrow> (Inl e, [HasVoterVoted (Inl e)])
      | Inr hasVotedOnBlockchain \<Rightarrow>
          if hasVotedOnBlockchain
          then (Inl ''You have already voted in this election on the blockchain'',
                [HasVoterVoted (Inr True)])
          else (case isVoterRegistered bc (registered_voters env) contractAddress
                       (address walletInfo) of
             Inl e \<Rightarrow> (Inl e, [HasVoterVoted (Inr False), IsVoterRegistered (Inl e)])
           | Inr isRegistered \<Rightarrow>
               if \<not> isRegistered
               then (let registrationResult = registerVoter bc (register_tx env) contractAddress
                     in if \<not> b_success registrationResult
                        then (Inl (''Voter registration failed: ''
                                   @ template (b_error registrationResult)),
                              [HasVoterVoted (Inr False), IsVoterRegistered (Inr False),
                               RegisterVoter False])
                        else (case submitToBlockchain_cast bc env request contractAddress
                                     walletInfo of
                                (r, tr) \<Rightarrow>
                                  (r, [HasVoterVoted (Inr False), IsVoterRegistered (Inr False),
                                       RegisterVoter True] @ tr)))
               else (case submitToBlockchain_cast bc env request contractAddress walletInfo of
                       (r, tr) \<Rightarrow>
                         (r, [HasVoterVoted (Inr False), IsVoterRegistered (Inr True)] @ tr))))"

definition submitToBlockchain ::
  "RealBlockchainService \<Rightarrow> env \<Rightarrow> VoteSubmissionRequest
     \<Rightarrow> VoteSubmissionResponse \<times> RealBlockchainService \<times> event list" where
  "submitToBlockchain bc env request =
     (case submitToBlockchain_setup bc env request of
        (Inl e, bc1, tr) \<Rightarrow> (failure e, bc1, tr)
      | (Inr (contractAddress, walletInfo), bc1, tr) \<Rightarrow>
          (case submitToBlockchain_ledger bc1 env request contractAddress walletInfo of
             (Inl e, tr2) \<Rightarrow> (failure e, bc1, tr @ tr2)
           | (Inr r, tr2) \<Rightarrow> (r, bc1, tr @ tr2)))"

text \<open>
  \<open>submitToBackend\<close> calls nothing: it reads the clock, draws a random number and answers.
  The transaction hash is passed under a non-null assertion, which is erased at run time.
\<close>

definition submitToBackend ::
  "env \<Rightarrow> VoteSubmissionRequest \<Rightarrow> string option \<Rightarrow> VoteSubmissionResponse" where
  "submitToBackend env request txHash =
     (let cid = ''confirm_'' @ int_to_radix 10 (now_backend env) @ ''_'' @ candidateId request;
          isSuccess = (backend_random env > 0.02)
      in if isSuccess
         then \<lparr>success = True, r_voteId = None, r_transactionHash = None, r_blockNumber = None,
               confirmationId = Some cid, message = Some ''Backend submission successful'',
               r_error = None, retryAfter = None\<rparr>
         else failure ''Backend service unavailable'')"

definition updateStatus ::
  "VoteSubmissionService \<Rightarrow> string \<Rightarrow> submission_status
     \<Rightarrow> (VoteSubmissionStatus \<Rightarrow> VoteSubmissionStatus) \<Rightarrow> VoteSubmissionService" where
  "updateStatus svc vid s updates =
     (case statusCache svc vid of
        None \<Rightarrow> svc
      | Some currentStatus \<Rightarrow>
          svc\<lparr>statusCache := (statusCache svc)(vid \<mapsto> updates (currentStatus\<lparr>status := s\<rparr>))\<rparr>)"

definition generateSubmissionId :: "env \<Rightarrow> VoteSubmissionRequest \<Rightarrow> string" where
  "generateSubmissionId env request =
     ''vote_'' @ int_to_radix 36 (timestamp request) @ ''_'' @ random_id env"

text \<open>
  \<open>submitVote\<close> is asynchronous: other calls of the service run while it waits. Its
  \<open>try\<close> block is therefore given in the pieces between which it waits longest, each a
  function of the service state it finds: entering the queue, validating and moving to
  \<open>processing\<close>, then committing and confirming. A left injection is a throw.
\<close>

definition submitVote_enqueue ::
  "VoteSubmissionService \<Rightarrow> env \<Rightarrow> VoteSubmissionRequest \<Rightarrow> string \<Rightarrow> VoteSubmissionService" where
  "submitVote_enqueue svc env request submissionId =
     svc\<lparr>submissionQueue := (submissionQueue svc)(submissionId \<mapsto> request),
         statusCache := (statusCache svc)(submissionId \<mapsto>
           \<lparr>voteId = submissionId, status = Pending, transactionHash = None,
            blockNumber = None, confirmationCount = None, error = None,
            submittedAt = now_submitted env, confirmedAt = None\<rparr>)\<rparr>"

definition submitVote_validate ::
  "VoteSubmissionService \<Rightarrow> RealBlockchainService \<Rightarrow> env \<Rightarrow> VoteSubmissionRequest \<Rightarrow> string
     \<Rightarrow> (string + unit) \<times> VoteSubmissionService \<times> event list" where
  "submitVote_validate svc bc env request submissionId =
     (let svc1 = submitVote_enqueue svc env request submissionId
      in case validateSubmission bc env request of
           (v, tr) \<Rightarrow>
             if \<not> valid v
             then (Inl (or_default (v_message v) ''Invalid vote submission''), svc1, tr)
             else (Inr (), updateStatus svc1 submissionId Processing (\<lambda>c. c), tr))"

definition submitVote_commit ::
  "VoteSubmissionService \<Rightarrow> RealBlockchainService \<Rightarrow> env \<Rightarrow> VoteSubmissionRequest \<Rightarrow> string
     \<Rightarrow> (string + VoteSubmissionResponse) \<times> VoteSubmissionService \<times> RealBlockchainService
        \<times> event list" where
  "submitVote_commit svc bc env request submissionId =
     (case submitToBlockchain bc env request of
        (blockchainResult, bc1, tr) \<Rightarrow>
          if \<not> success blockchainResult
          then (Inl (or_default (r_error blockchainResult) ''Blockchain submission failed''),
                svc, bc1, tr)
          else (let backendResult =
                      submitToBackend env request (r_transactionHash blockchainResult)
                in if \<not> success backendResult
                   then (Inl (or_default (r_error backendResult) ''Backend submission failed''),
                         svc, bc1, tr)
                   else (let svc1 = updateStatus svc submissionId Confirmed
                               (\<lambda>c. c\<lparr>transactionHash := r_transactionHash blockchainResult,
                                      blockNumber := r_blockNumber blockchainResult,
                                      confirmationCount := Some 1,
                                      confirmedAt := Some (now_confirmed env)\<rparr>);
                             svc2 = svc1\<lparr>submissionQueue :=
                                           (submissionQueue svc1)(submissionId := None),
                                         retryAttempts :=
                                           (retryAttempts svc1)(submissionId := None)\<rparr>
                         in (Inr \<lparr>success = True, r_voteId = Some submissionId,
                                  r_transactionHash = r_transactionHash blockchainResult,
                                  r_blockNumber = r_blockNumber blockchainResult,
                                  confirmationId = confirmationId backendResult,
                                  message = Some ''Vote submitted successfully'',
                                  r_error = None, retryAfter = None\<rparr>,
                             svc2, bc1, tr))))"

text \<open>
  The \<open>catch\<close> block. The third component is the timer it sets: the delay in
  milliseconds and the submission id handed to \<open>retrySubmission\<close>.
\<close>

definition submitVote_catch ::
  "VoteSubmissionService \<Rightarrow> string \<Rightarrow> string
     \<Rightarrow> VoteSubmissionResponse \<times> VoteSubmissionService \<times> (nat \<times> string) option" where
  "submitVote_catch svc submissionId errorMessage =
     (let svc1 = updateStatus svc submissionId Failed (\<lambda>c. c\<lparr>error := Some errorMessage\<rparr>);
          retryCount = (case retryAttempts svc1 submissionId of None \<Rightarrow> 0 | Some n \<Rightarrow> n)
      in if retryCount < maxRetries
         then ((failure errorMessage)\<lparr>retryAfter := Some (retryDelay * (retryCount + 1))\<rparr>,
               svc1\<lparr>retryAttempts := (retryAttempts svc1)(submissionId \<mapsto> retryCount + 1)\<rparr>,
               Some (retryDelay * (retryCount + 1), submissionId))
         else (failure errorMessage,
               svc1\<lparr>submissionQueue := (submissionQueue svc1)(submissionId := None),
                    retryAttempts := (retryAttempts svc1)(submissionId := None)\<rparr>,
               None))"

record outcome =
  response :: VoteSubmissionResponse
  service :: VoteSubmissionService
  chain :: RealBlockchainService
  trace :: "event list"
  timer :: "(nat \<times> string) option"

definition caught ::
  "VoteSubmissionService \<Rightarrow> RealBlockchainService \<Rightarrow> event list \<Rightarrow> string \<Rightarrow> string \<Rightarrow> outcome" where
  "caught svc bc tr submissionId errorMessage =
     (case submitVote_catch svc submissionId errorMessage of
        (r, svc1, t) \<Rightarrow> \<lparr>response = r, service = svc1, chain = bc, trace = tr, timer = t\<rparr>)"

text \<open>The part of \<open>submitVote\<close> from \<open>processing\<close> on, with the \<open>catch\<close> block.\<close>

definition submitVote_resume ::
  "VoteSubmissionService \<Rightarrow> RealBlockchainService \<Rightarrow> env \<Rightarrow> VoteSubmissionRequest \<Rightarrow> string
     \<Rightarrow> event list \<Rightarrow> outcome" where
  "submitVote_resume svc bc env request submissionId tr =
     (case submitVote_commit svc bc env request submissionId of
        (Inl errorMessage, svc1, bc1, tr2) \<Rightarrow> caught svc1 bc1 (tr @ tr2) submissionId errorMessage
      | (Inr r, svc1, bc1, tr2) \<Rightarrow>
          \<lparr>response = r, service = svc1, chain = bc1, trace = tr @ tr2, timer = None\<rparr>)"

definition submitVote ::
  "VoteSubmissionService \<Rightarrow> RealBlockchainService \<Rightarrow> env \<Rightarrow> VoteSubmissionRequest \<Rightarrow> outcome" where
  "submitVote svc bc env request =
     (let submissionId = generateSubmissionId env request
      in case submitVote_validate svc bc env request submissionId of
           (Inl errorMessage, svc1, tr) \<Rightarrow> caught svc1 bc tr submissionId errorMessage
         | (Inr u, svc1, tr) \<Rightarrow> submitVote_resume svc1 bc env request submissionId tr)"

text \<open>\<open>retrySubmission\<close> returns at once (\<open>None\<close>) when the id has left the queue.\<close>

definition retrySubmission ::
  "VoteSubmissionService \<Rightarrow> RealBlockchainService \<Rightarrow> env \<Rightarrow> string \<Rightarrow> outcome option" where
  "retrySubmission svc bc env submissionId =
     (case submissionQueue svc submissionId of
        None \<Rightarrow> None
      | Some request \<Rightarrow> Some (submitVote svc bc env request))"

definition cancelSubmission :: "VoteSubmissionService \<Rightarrow> string \<Rightarrow> bool \<times> VoteSubmissionService" where
  "cancelSubmission svc vid =
     (if submissionQueue svc vid \<noteq> None
      then (True,
            updateStatus
              (svc\<lparr>submissionQueue := (submissionQueue svc)(vid := None),
                   retryAttempts := (retryAttempts svc)(vid := None)\<rparr>)
              vid Rejected (\<lambda>c. c))
      else (False, svc))"

text \<open>
  The timers: a pending timer fires and runs \<open>retrySubmission\<close>, in the next environment
  of the list; the attempt may set the next timer. The result lists the outcome of every
  attempt made and the timer still pending when the environments are used up.
\<close>

fun run_timers ::
  "VoteSubmissionService \<Rightarrow> RealBlockchainService \<Rightarrow> (nat \<times> string) option \<Rightarrow> env list
     \<Rightarrow> outcome list \<times> (nat \<times> string) option" where
  "run_timers svc bc None envs = ([], None)"
| "run_timers svc bc (Some t) [] = ([], Some t)"
| "run_timers svc bc (Some t) (env # envs) =
     (case retrySubmission svc bc env (snd t) of
        None \<Rightarrow> ([], None)
      | Some out \<Rightarrow>
          (case run_timers (service out) (chain out) (timer out) envs of
             (outs, t') \<Rightarrow> (out # outs, t')))"

definition empty_service :: VoteSubmissionService where
  "empty_service = \<lparr>submissionQueue = Map.empty, statusCache = Map.empty,
     retryAttempts = Map.empty\<rparr>"

section \<open>What other calls do while submitVote waits\<close>

text \<open>
  \<open>submitVote\<close> above is the run of one call at whose awaits nothing else touches the
  coordinator or the ledger client. Both are singletons, though: while a call waits,
  \<open>cancelSubmission\<close>, other calls of \<open>submitVote\<close> and the retries of earlier ones work
  on the same three maps and on the same wallet. A disturbance says, for each await of a
  call after which the call reads shared state again, what the others have done to that
  state meanwhile: to the coordinator while \<open>validateSubmission\<close> is awaited and while
  \<open>submitToBlockchain\<close> and \<open>submitToBackend\<close> are, to the ledger client while
  \<open>connectWallet\<close>, \<open>hasVoterVoted\<close>, \<open>isVoterRegistered\<close> and \<open>registerVoter\<close> are.
\<close>

record disturbance =
  while_validating :: "VoteSubmissionService \<Rightarrow> VoteSubmissionService"
  while_committing :: "VoteSubmissionService \<Rightarrow> VoteSubmissionService"
  while_connecting :: "RealBlockchainService \<Rightarrow> RealBlockchainService"
  while_asking_voted :: "RealBlockchainService \<Rightarrow> RealBlockchainService"
  while_asking_registered :: "RealBlockchainService \<Rightarrow> RealBlockchainService"
  while_registering :: "RealBlockchainService \<Rightarrow> RealBlockchainService"

definition calm :: disturbance where
  "calm = \<lparr>while_validating = (\<lambda>s. s), while_committing = (\<lambda>s. s),
     while_connecting = (\<lambda>b. b), while_asking_voted = (\<lambda>b. b),
     while_asking_registered = (\<lambda>b. b), while_registering = (\<lambda>b. b)\<rparr>"

text \<open>No other call replaces the wallet of the ledger client.\<close>

definition keeps_wallet :: "disturbance \<Rightarrow> bool" where
  "keeps_wallet d \<longleftrightarrow>
     (\<forall>b. wallet (while_connecting d b) = wallet b)
     \<and> (\<forall>b. wallet (while_asking_voted d b) = wallet b)
     \<and> (\<forall>b. wallet (while_asking_registered d b) = wallet b)
     \<and> (\<forall>b. wallet (while_registering d b) = wallet b)"

text \<open>
  The calls to the ledger with the identities they are about: the contract and the
  address a query asks about, and for a transaction the contract and the address of the
  wallet that \<open>this.wallet\<close> holds when \<open>registerVoter\<close> or \<open>castVote\<close> builds its contract.
  That wallet signs the transaction, and \<open>registerVoter\<close> registers its address.
\<close>

datatype ledger_call =
    AskedVoted string string "string + bool"
  | AskedRegistered string string "string + bool"
  | Registered string "string option" bool
  | Voted string "string option" bool

fun anonymous :: "ledger_call \<Rightarrow> event" where
  "anonymous (AskedVoted c a r) = HasVoterVoted r"
| "anonymous (AskedRegistered c a r) = IsVoterRegistered r"
| "anonymous (Registered c s ok) = RegisterVoter ok"
| "anonymous (Voted c s ok) = CastVote ok"

definition cast_call ::
  "RealBlockchainService \<Rightarrow> env \<Rightarrow> VoteSubmissionRequest \<Rightarrow> string \<Rightarrow> WalletInfo \<Rightarrow> ledger_call" where
  "cast_call bc env request contractAddress walletInfo =
     Voted contractAddress (wallet bc)
       (b_success (castVote bc (vote_tx env)
          \<lparr>q_electionId = electionId request, q_candidateId = candidateId request,
           q_voterAddress = address walletInfo, q_contractAddress = contractAddress\<rparr>))"

text \<open>
  The second and third part of \<open>submitToBlockchain\<close> again, each call reading the ledger
  client as the others have left it. The registration query is answered by \<open>registry\<close>,
  a function of the contract and of the address that is asked about.
\<close>

definition submitToBlockchain_ledger_interleaved ::
  "RealBlockchainService \<Rightarrow> env \<Rightarrow> (string \<Rightarrow> string \<Rightarrow> string + bool) \<Rightarrow> disturbance
     \<Rightarrow> VoteSubmissionRequest \<Rightarrow> string \<Rightarrow> WalletInfo
     \<Rightarrow> (string + VoteSubmissionResponse) \<times> RealBlockchainService \<times> ledger_call list" where
  "submitToBlockchain_ledger_interleaved bc env registry d request contractAddress walletInfo =
     (case hasVoterVoted bc (voted_voters env) contractAddress (address walletInfo) of
        Inl e \<Rightarrow> (Inl e, bc, [AskedVoted contractAddress (address walletInfo) (Inl e)])
      | Inr hasVotedOnBlockchain \<Rightarrow>
          if hasVotedOnBlockchain
          then (Inl ''You have already voted in this election on the blockchain'', bc,
                [AskedVoted contractAddress (address walletInfo) (Inr True)])
          else (let bc2 = while_asking_voted d bc in
            case isVoterRegistered bc2 (registry contractAddress (address walletInfo))
                   contractAddress (address walletInfo) of
              Inl e \<Rightarrow>
                (Inl e, bc2,
                 [AskedVoted contractAddress (address walletInfo) (Inr False),
                  AskedRegistered contractAddress (address walletInfo) (Inl e)])
            | Inr isRegistered \<Rightarrow>
                (let bc3 = while_asking_registered d bc2 in
                 if \<not> isRegistered
                 then (let registrationResult = registerVoter bc3 (register_tx env) contractAddress
                       in if \<not> b_success registrationResult
                          then (Inl (''Voter registration failed: ''
                                     @ template (b_error registrationResult)),
                                bc3,
                                [AskedVoted contractAddress (address walletInfo) (Inr False),
                                 AskedRegistered contractAddress (address walletInfo) (Inr False),
                                 Registered contractAddress (wallet bc3) False])
                          else (let bc4 = while_registering d bc3 in
                                (fst (submitToBlockchain_cast bc4 env request contractAddress
                                        walletInfo),
                                 bc4,
                                 [AskedVoted contractAddress (address walletInfo) (Inr False),
                                  AskedRegistered contractAddress (address walletInfo) (Inr False),
                                  Registered contractAddress (wallet bc3) True,
                                  cast_call bc4 env request contractAddress walletInfo])))
                 else (fst (submitToBlockchain_cast bc3 env request contractAddress walletInfo),
                       bc3,
                       [AskedVoted contractAddress (address walletInfo) (Inr False),
                        AskedRegistered contractAddress (address walletInfo) (Inr True),
                        cast_call bc3 env request contractAddress walletInfo]))))"

definition submitToBlockchain_interleaved ::
  "RealBlockchainService \<Rightarrow> env \<Rightarrow> (string \<Rightarrow> string \<Rightarrow> string + bool) \<Rightarrow> disturbance
     \<Rightarrow> VoteSubmissionRequest
     \<Rightarrow> VoteSubmissionResponse \<times> RealBlockchainService \<times> event list \<times> ledger_call list" where
  "submitToBlockchain_interleaved bc env registry d request =
     (case submitToBlockchain_setup bc env request of
        (Inl e, bc1, tr) \<Rightarrow> (failure e, bc1, tr, [])
      | (Inr (contractAddress, walletInfo), bc1, tr) \<Rightarrow>
          (case submitToBlockchain_ledger_interleaved (while_connecting d bc1) env registry d
                  request contractAddress walletInfo of
             (Inl e, bc2, calls) \<Rightarrow> (failure e, bc2, tr @ map anonymous calls, calls)
           | (Inr r, bc2, calls) \<Rightarrow> (r, bc2, tr @ map anonymous calls, calls)))"

text \<open>
  The \<open>try\<close> block of \<open>submitVote\<close> again, up to its return or its throw: the result, the
  coordinator as the \<open>catch\<close> block or the caller finds it, the ledger client, the trace
  and the calls to the ledger.
\<close>

definition submitVote_try ::
  "VoteSubmissionService \<Rightarrow> RealBlockchainService \<Rightarrow> env
     \<Rightarrow> (string \<Rightarrow> string \<Rightarrow> string + bool) \<Rightarrow> disturbance \<Rightarrow> VoteSubmissionRequest
     \<Rightarrow> (string + VoteSubmissionResponse) \<times> VoteSubmissionService \<times> RealBlockchainService
        \<times> event list \<times> ledger_call list" where
  "submitVote_try svc bc env registry d request =
     (let submissionId = generateSubmissionId env request;
          svc1 = while_validating d (submitVote_enqueue svc env request submissionId)
      in case validateSubmission bc env request of
           (v, tr) \<Rightarrow>
             if \<not> valid v
             then (Inl (or_default (v_message v) ''Invalid vote submission''), svc1, bc, tr, [])
             else (let svc2 = while_committing d
                                (updateStatus svc1 submissionId Processing (\<lambda>c. c))
                   in case submitToBlockchain_interleaved bc env registry d request of
                        (blockchainResult, bc1, tr2, calls) \<Rightarrow>
                          if \<not> success blockchainResult
                          then (Inl (or_default (r_error blockchainResult)
                                       ''Blockchain submission failed''),
                                svc2, bc1, tr @ tr2, calls)
                          else (let backendResult = submitToBackend env request
                                      (r_transactionHash blockchainResult)
                                in if \<not> success backendResult
                                   then (Inl (or_default (r_error backendResult)
                                                ''Backend submission failed''),
                                         svc2, bc1, tr @ tr2, calls)
                                   else (let svc3 = updateStatus svc2 submissionId Confirmed
                                               (\<lambda>c. c\<lparr>transactionHash :=
                                                        r_transactionHash blockchainResult,
                                                      blockNumber := r_blockNumber blockchainResult,
                                                      confirmationCount := Some 1,
                                                      confirmedAt := Some (now_confirmed env)\<rparr>);
                                             svc4 = svc3\<lparr>submissionQueue :=
                                                           (submissionQueue svc3)(submissionId := None),
                                                         retryAttempts :=
                                                           (retryAttempts svc3)(submissionId := None)\<rparr>
                                         in (Inr \<lparr>success = True, r_voteId = Some submissionId,
                                                  r_transactionHash =
                                                    r_transactionHash blockchainResult,
                                                  r_blockNumber = r_blockNumber blockchainResult,
                                                  confirmationId = confirmationId backendResult,
                                                  message = Some ''Vote submitted successfully'',
                                                  r_error = None, retryAfter = None\<rparr>,
                                             svc4, bc1, tr @ tr2, calls)))))"

text \<open>The whole call, with its \<open>catch\<close> block, and the calls it made to the ledger.\<close>

definition submitVote_interleaved ::
  "VoteSubmissionService \<Rightarrow> RealBlockchainService \<Rightarrow> env
     \<Rightarrow> (string \<Rightarrow> string \<Rightarrow> string + bool) \<Rightarrow> disturbance \<Rightarrow> VoteSubmissionRequest
     \<Rightarrow> outcome \<times> ledger_call list" where
  "submitVote_interleaved svc bc env registry d request =
     (case submitVote_try svc bc env registry d request of
        (Inl errorMessage, svc1, bc1, tr, calls) \<Rightarrow>
          (caught svc1 bc1 tr (generateSubmissionId env request) errorMessage, calls)
      | (Inr r, svc1, bc1, tr, calls) \<Rightarrow>
          (\<lparr>response = r, service = svc1, chain = bc1, trace = tr, timer = None\<rparr>, calls))"

section \<open>Notions used to state the properties\<close>

text \<open>The retry count \<open>submitVote\<close> reads in its \<open>catch\<close> block: the stored one, or 0.\<close>

definition stored_retries :: "VoteSubmissionService \<Rightarrow> string \<Rightarrow> nat" where
  "stored_retries svc sid = (case retryAttempts svc sid of None \<Rightarrow> 0 | Some n \<Rightarrow> n)"

definition status_of :: "VoteSubmissionService \<Rightarrow> string \<Rightarrow> submission_status option" where
  "status_of svc sid = map_option status (statusCache svc sid)"

definition error_of :: "VoteSubmissionService \<Rightarrow> string \<Rightarrow> string option" where
  "error_of svc sid = (case statusCache svc sid of None \<Rightarrow> None | Some c \<Rightarrow> error c)"

definition already_voted_msg :: string where
  "already_voted_msg = ''You have already voted in this election on the blockchain''"

text \<open>
  The checks of \<open>validateSubmission\<close> that read the request and the clock only, in its
  order, with the message of the first one that fails.
\<close>

definition request_check :: "env \<Rightarrow> VoteSubmissionRequest \<Rightarrow> string option" where
  "request_check env request =
     (if \<not> truthy (electionId request) \<or> \<not> truthy (candidateId request)
         \<or> \<not> truthy (voterId request)
      then Some ''Missing required fields''
      else if \<not> truthy (verificationCode request) \<or> length (verificationCode request) \<noteq> 6
      then Some ''Invalid verification code''
      else if \<not> truthy (biometricHash request) \<or> \<not> truthy (deviceId request)
      then Some ''Missing security credentials''
      else if now_validation env - timestamp request > 5 * 60 * 1000
      then Some ''Submission expired''
      else None)"

text \<open>What is left of \<open>validateSubmission\<close> once those checks have passed.\<close>

definition ledger_precheck ::
  "RealBlockchainService \<Rightarrow> env \<Rightarrow> VoteSubmissionRequest \<Rightarrow> validation \<times> event list" where
  "ledger_precheck bc env request =
     (if \<not> truthy (voterAddress request) then (valid_ok, [])
      else case v_election env of
        Response True statusText (Inr contractAddress) \<Rightarrow>
          if \<not> truthy contractAddress then (valid_ok, [FetchElection])
          else if provider bc \<and> v_voters env = Inr True
          then (invalid already_voted_msg, [FetchElection, HasVoterVoted (Inr True)])
          else (valid_ok, [FetchElection, HasVoterVoted (Inr False)])
      | _ \<Rightarrow> (valid_ok, [FetchElection]))"

section \<open>Concrete runs\<close>

definition request_A :: VoteSubmissionRequest where
  "request_A = \<lparr>electionId = ''e1'', candidateId = ''2'', voterId = ''v1'',
     verificationCode = ''123456'', biometricHash = ''bh'', deviceId = ''dev'',
     timestamp = 1000, voterAddress = '''', token = ''tok''\<rparr>"

definition receipt_A :: receipt where
  "receipt_A = \<lparr>hash = ''0xabc'', rc_blockNumber = 7, gasUsed = ''21000''\<rparr>"

text \<open>Ledger and backend answer, the voter is neither registered nor has voted.\<close>

definition env_healthy :: env where
  "env_healthy = \<lparr>random_id = ''aaaaaa'', now_submitted = 1000, now_validation = 1001,
     v_election = Response True ''OK'' (Inr ''0xc''), v_voters = Inr False,
     b_election = Response True ''OK'' (Inr ''0xc''),
     b_profile = Response True ''OK'' (Inr ''key''),
     new_wallet = Inr ''0xa'', get_balance = Inr ''1.0'',
     voted_voters = Inr False, registered_voters = Inr False,
     register_tx = Inr receipt_A, vote_tx = Inr receipt_A,
     now_backend = 2000, backend_random = 0.5, now_confirmed = 2001\<rparr>"

text \<open>The same, with the backend unavailable.\<close>

definition env_backend_down :: env where
  "env_backend_down = env_healthy\<lparr>backend_random := 0.01\<rparr>"

text \<open>The same, with a ledger that reports the voter as having voted.\<close>

definition env_voted :: env where
  "env_voted = env_healthy\<lparr>voted_voters := Inr True\<rparr>"

text \<open>The same, with validation 399 seconds after the request was built.\<close>

definition env_late :: env where
  "env_late = env_healthy\<lparr>now_validation := 400000\<rparr>"

text \<open>The retry of that request, five seconds later, with another random suffix.\<close>

definition env_later :: env where
  "env_later = env_healthy\<lparr>random_id := ''bbbbbb'', now_validation := 405000\<rparr>"

text \<open>The same, with another random suffix for the submission id.\<close>

definition env_second :: env where
  "env_second = env_healthy\<lparr>random_id := ''bbbbbb''\<rparr>"

text \<open>
  A later call: the duplicate-vote query times out, the registration query answers true,
  the ledger includes the vote transaction.
\<close>

definition env_again :: env where
  "env_again = env_healthy\<lparr>random_id := ''bbbbbb'', voted_voters := Inl ''timeout'',
     registered_voters := Inr True\<rparr>"

text \<open>The request with the voter's address, as the application passes it.\<close>

definition request_B :: VoteSubmissionRequest where
  "request_B = request_A\<lparr>voterAddress := ''0xa''\<rparr>"

text \<open>
  The request as the application builds it: election, candidate, voter, address, token
  and timestamp, and neither verification code nor biometric hash nor device id.
\<close>

definition request_app :: VoteSubmissionRequest where
  "request_app = \<lparr>electionId = ''e1'', candidateId = ''2'', voterId = ''v1'',
     verificationCode = [], biometricHash = [], deviceId = [],
     timestamp = 1000, voterAddress = ''0xa'', token = ''tok''\<rparr>"

text \<open>The environments of four retries, each with its own random suffix.\<close>

definition envs_retry :: "env list" where
  "envs_retry = map (\<lambda>r. env_healthy\<lparr>random_id := r\<rparr>)
     [''aaaaab'', ''aaaaac'', ''aaaaad'', ''aaaaae'']"

definition chain_ready :: RealBlockchainService where
  "chain_ready = \<lparr>provider = True, wallet = None\<rparr>"

text \<open>
  A ledger on which no address is registered, and one on which 0xa alone is.
\<close>

definition nobody_registered :: "string \<Rightarrow> string \<Rightarrow> string + bool" where
  "nobody_registered c a = Inr False"

definition only_a_registered :: "string \<Rightarrow> string \<Rightarrow> string + bool" where
  "only_a_registered c a = Inr (a = ''0xa'')"

text \<open>
  While the call for \<open>request_A\<close> waits for the ledger or the backend, the user cancels
  the submission.
\<close>

definition cancelled_meanwhile :: disturbance where
  "cancelled_meanwhile =
     calm\<lparr>while_committing := (\<lambda>s. snd (cancelSubmission s ''vote_rs_aaaaaa''))\<rparr>"

text \<open>
  While the call waits for the answer to its registration query, another call of
  \<open>submitVote\<close> reaches \<open>connectWallet\<close> with the key of the wallet 0xb.
\<close>

definition other_wallet_meanwhile :: disturbance where
  "other_wallet_meanwhile =
     calm\<lparr>while_asking_registered :=
            (\<lambda>b. snd (connectWallet b (Inr ''0xb'') (Inr ''2.0'') ''key2''))\<rparr>"

text \<open>The state in which a first call for \<open>request_A\<close> waits for the ledger.\<close>

definition in_flight :: VoteSubmissionService where
  "in_flight = fst (snd (submitVote_validate empty_service chain_ready env_healthy request_A
     (generateSubmissionId env_healthy request_A)))"

lemmas model_defs =
  submitVote_def generateSubmissionId_def submitVote_validate_def submitVote_enqueue_def
  validateSubmission_def truthy_def checkExistingVote_def valid_ok_def invalid_def
  updateStatus_def submitVote_resume_def submitVote_commit_def submitToBlockchain_def
  submitToBlockchain_setup_def connectWallet_def submitToBlockchain_ledger_def
  hasVoterVoted_def voters_query_def isVoterRegistered_def registerVoter_def
  tx_included_def tx_failed_def submitToBlockchain_cast_def castVote_def parseInt_def
  is_space_def digit_value_def submitToBackend_def caught_def submitVote_catch_def
  failure_def or_default_def template_def int_to_radix_def nat_to_radix.simps digit_char_def
  maxRetries_def retryDelay_def retrySubmission_def cancelSubmission_def is_transaction_def
  stored_retries_def status_of_def error_of_def already_voted_msg_def Let_def

lemmas interleaved_defs =
  submitVote_interleaved_def submitVote_try_def submitToBlockchain_interleaved_def
  submitToBlockchain_ledger_interleaved_def cast_call_def calm_def

lemmas run_defs =
  request_A_def receipt_A_def env_healthy_def chain_ready_def empty_service_def in_flight_def
  env_backend_down_def env_voted_def env_late_def env_later_def env_second_def env_again_def request_B_def

lemmas disturbed_defs =
  nobody_registered_def only_a_registered_def cancelled_meanwhile_def other_wallet_meanwhile_def

section \<open>How a call of submitVote can end\<close>

lemma failure_simps [simp]:
  "success (failure m) = False" "r_error (failure m) = Some m" "retryAfter (failure m) = None"
  by (simp_all add: failure_def)

lemma validateSubmission_alt:
  "validateSubmission bc env request =
     (case request_check env request of
        Some m \<Rightarrow> (invalid m, [])
      | None \<Rightarrow> ledger_precheck bc env request)"
  by (simp add: validateSubmission_def request_check_def ledger_precheck_def checkExistingVote_def
      hasVoterVoted_def voters_query_def already_voted_msg_def
      split: fetched.splits sum.splits bool.splits)

lemma request_check_rejects:
  assumes "request_check env request = Some m"
  shows "validateSubmission bc env request = (invalid m, [])" "m \<noteq> []"
  using assms by (auto simp: validateSubmission_alt request_check_def split: if_splits)

lemma validate_state:
  assumes "submitVote_validate svc bc env request sid = (r, svc1, tr)"
  shows "statusCache svc1 sid \<noteq> None" "submissionQueue svc1 sid = Some request"
    "retryAttempts svc1 = retryAttempts svc" "tr = snd (validateSubmission bc env request)"
    "r = Inr () \<longleftrightarrow> valid (fst (validateSubmission bc env request))"
    "r = Inl m \<Longrightarrow>
       m = or_default (v_message (fst (validateSubmission bc env request))) ''Invalid vote submission''
       \<and> svc1 = submitVote_enqueue svc env request sid"
  using assms
  by (auto simp: submitVote_validate_def submitVote_enqueue_def updateStatus_def Let_def
      split: prod.splits if_splits)

lemma commit_failed:
  assumes "submitVote_commit svc bc env request sid = (Inl e, svc1, bc1, tr)"
  shows "svc1 = svc"
  using assms
  by (auto simp: submitVote_commit_def Let_def split: prod.splits if_splits)

lemma commit_trace:
  assumes "submitVote_commit svc bc env request sid = (r, svc1, bc1, tr)"
  shows "tr = snd (snd (submitToBlockchain bc env request))"
  using assms
  by (auto simp: submitVote_commit_def Let_def split: prod.splits if_splits)

lemma commit_success:
  assumes "submitVote_commit svc bc env request sid = (Inr r, svc1, bc1, tr)"
  shows "success r" "success (fst (submitToBlockchain bc env request))"
  using assms
  by (auto simp: submitVote_commit_def Let_def split: prod.splits if_splits)


lemma caught_retry:
  assumes "statusCache svc sid = Some c" "stored_retries svc sid < maxRetries"
  shows "caught svc bc tr sid m =
     \<lparr>response = (failure m)\<lparr>retryAfter := Some (retryDelay * (stored_retries svc sid + 1))\<rparr>,
      service = svc\<lparr>statusCache := (statusCache svc)(sid \<mapsto> c\<lparr>status := Failed, error := Some m\<rparr>),
                   retryAttempts := (retryAttempts svc)(sid \<mapsto> stored_retries svc sid + 1)\<rparr>,
      chain = bc, trace = tr, timer = Some (retryDelay * (stored_retries svc sid + 1), sid)\<rparr>"
  using assms
  by (simp add: caught_def submitVote_catch_def updateStatus_def stored_retries_def Let_def)

lemma caught_final:
  assumes "statusCache svc sid = Some c" "\<not> stored_retries svc sid < maxRetries"
  shows "caught svc bc tr sid m =
     \<lparr>response = failure m,
      service = svc\<lparr>submissionQueue := (submissionQueue svc)(sid := None),
                   statusCache := (statusCache svc)(sid \<mapsto> c\<lparr>status := Failed, error := Some m\<rparr>),
                   retryAttempts := (retryAttempts svc)(sid := None)\<rparr>,
      chain = bc, trace = tr, timer = None\<rparr>"
  using assms
  by (simp add: caught_def submitVote_catch_def updateStatus_def stored_retries_def Let_def)

lemma caught_trace [simp]:
  "trace (caught svc bc tr sid m) = tr" "chain (caught svc bc tr sid m) = bc"
  by (simp_all add: caught_def split: prod.splits)

lemma caught_summary:
  assumes "statusCache svc sid = Some c"
  shows "response (caught svc bc tr sid m) =
           (if stored_retries svc sid < maxRetries
            then (failure m)\<lparr>retryAfter := Some (retryDelay * (stored_retries svc sid + 1))\<rparr>
            else failure m)"
    "status_of (service (caught svc bc tr sid m)) sid = Some Failed"
    "error_of (service (caught svc bc tr sid m)) sid = Some m"
    "timer (caught svc bc tr sid m) =
       (if stored_retries svc sid < maxRetries
        then Some (retryDelay * (stored_retries svc sid + 1), sid) else None)"
    "retryAttempts (service (caught svc bc tr sid m)) =
       (if stored_retries svc sid < maxRetries
        then (retryAttempts svc)(sid \<mapsto> stored_retries svc sid + 1)
        else (retryAttempts svc)(sid := None))"
    "submissionQueue (service (caught svc bc tr sid m)) sid =
       (if stored_retries svc sid < maxRetries then submissionQueue svc sid else None)"
    "trace (caught svc bc tr sid m) = tr" "chain (caught svc bc tr sid m) = bc"
  by (cases "stored_retries svc sid < maxRetries";
      simp add: caught_retry [OF assms] caught_final [OF assms] status_of_def error_of_def)+

text \<open>The three ways a call ends: rejected by validation, failed after it, confirmed.\<close>

lemma submitVote_cases:
  fixes svc bc env request
  defines "sid \<equiv> generateSubmissionId env request"
  defines "out \<equiv> submitVote svc bc env request"
  defines "vtr \<equiv> snd (validateSubmission bc env request)"
  defines "btr \<equiv> snd (snd (submitToBlockchain bc env request))"
  obtains
    (invalid) svc1 m where
      "\<not> valid (fst (validateSubmission bc env request))"
      "submitVote_validate svc bc env request sid = (Inl m, svc1, vtr)"
      "out = caught svc1 bc vtr sid m"
  | (failed) svc1 m bc1 where
      "valid (fst (validateSubmission bc env request))"
      "submitVote_validate svc bc env request sid = (Inr (), svc1, vtr)"
      "submitVote_commit svc1 bc env request sid = (Inl m, svc1, bc1, btr)"
      "out = caught svc1 bc1 (vtr @ btr) sid m"
  | (confirmed) svc1 svc2 r bc1 where
      "valid (fst (validateSubmission bc env request))"
      "submitVote_validate svc bc env request sid = (Inr (), svc1, vtr)"
      "submitVote_commit svc1 bc env request sid = (Inr r, svc2, bc1, btr)"
      "out = \<lparr>response = r, service = svc2, chain = bc1, trace = vtr @ btr, timer = None\<rparr>"
proof -
  obtain r svc1 tr where v: "submitVote_validate svc bc env request sid = (r, svc1, tr)"
    by (cases "submitVote_validate svc bc env request sid")
  note vs = validate_state [OF v]
  show thesis
  proof (cases r)
    case (Inl m)
    with v vs have "out = caught svc1 bc vtr sid m"
      by (simp add: out_def submitVote_def sid_def [symmetric] vtr_def Let_def)
    moreover from Inl vs(5) have "\<not> valid (fst (validateSubmission bc env request))" by simp
    ultimately show thesis using invalid v Inl vs(4) by (simp add: vtr_def)
  next
    case (Inr u)
    then have val: "valid (fst (validateSubmission bc env request))" using vs(5) by simp
    obtain r2 svc2 bc1 tr2 where c: "submitVote_commit svc1 bc env request sid = (r2, svc2, bc1, tr2)"
      by (cases "submitVote_commit svc1 bc env request sid")
    have tr2: "tr2 = btr" using commit_trace [OF c] by (simp add: btr_def)
    show thesis
    proof (cases r2)
      case (Inl m)
      with c commit_failed [of svc1 bc env request sid m svc2 bc1 tr2] have "svc2 = svc1" by simp
      with Inl c v Inr vs(4) tr2 val show thesis
        by (intro failed [of svc1 m bc1])
           (simp_all add: out_def submitVote_def sid_def [symmetric] submitVote_resume_def
              vtr_def Let_def)
    next
      case (Inr resp)
      with c v \<open>r = Inr u\<close> vs(4) tr2 val show thesis
        by (intro confirmed [of svc1 resp svc2 bc1])
           (simp_all add: out_def submitVote_def sid_def [symmetric] submitVote_resume_def
              vtr_def Let_def)
    qed
  qed
qed

text \<open>Every failed call ends in the \<open>catch\<close> block, with the retry count it found.\<close>

lemma submitVote_failed:
  fixes svc bc env request
  defines "sid \<equiv> generateSubmissionId env request"
  defines "out \<equiv> submitVote svc bc env request"
  assumes "\<not> success (response out)"
  obtains svc1 bc1 tr m c where
    "out = caught svc1 bc1 tr sid m" "statusCache svc1 sid = Some c"
    "stored_retries svc1 sid = stored_retries svc sid" "submissionQueue svc1 sid = Some request"
    "retryAttempts svc1 = retryAttempts svc"
proof (cases rule: submitVote_cases [of bc env request svc])
  case (invalid svc1 m)
  note vs = validate_state [OF invalid(2)]
  from vs(1) obtain c where "statusCache svc1 sid = Some c" by (auto simp: sid_def)
  with invalid(3) vs(2,3) that show thesis by (simp add: out_def sid_def stored_retries_def)
next
  case (failed svc1 m bc1)
  note vs = validate_state [OF failed(2)]
  from vs(1) obtain c where "statusCache svc1 sid = Some c" by (auto simp: sid_def)
  with failed(4) vs(2,3) that show thesis by (simp add: out_def sid_def stored_retries_def)
next
  case (confirmed svc1 svc2 r bc1)
  with commit_success(1) [OF confirmed(3)] assms show thesis by (simp add: out_def)
qed

section \<open>The undisturbed run among the disturbed ones\<close>

lemma cast_call_anonymous:
  "snd (submitToBlockchain_cast bc env request c w) = [anonymous (cast_call bc env request c w)]"
  by (simp add: submitToBlockchain_cast_def cast_call_def Let_def)

lemma ledger_interleaved_calm:
  "fst (submitToBlockchain_ledger_interleaved bc env (\<lambda>c a. registered_voters env) calm
          request c w) = fst (submitToBlockchain_ledger bc env request c w)
   \<and> fst (snd (submitToBlockchain_ledger_interleaved bc env (\<lambda>c a. registered_voters env) calm
          request c w)) = bc
   \<and> map anonymous (snd (snd (submitToBlockchain_ledger_interleaved bc env
        (\<lambda>c a. registered_voters env) calm request c w)))
     = snd (submitToBlockchain_ledger bc env request c w)"
  using cast_call_anonymous [of bc env request c w]
  by (auto simp: submitToBlockchain_ledger_interleaved_def submitToBlockchain_ledger_def calm_def
      Let_def split: sum.splits prod.splits)

lemma submitToBlockchain_calm:
  "(case submitToBlockchain_interleaved bc env (\<lambda>c a. registered_voters env) calm request of
      (r, b, tr, calls) \<Rightarrow> (r, b, tr)) = submitToBlockchain bc env request"
proof (cases "submitToBlockchain_setup bc env request")
  case (fields r bc1 tr)
  show ?thesis
  proof (cases r)
    case (Inl e)
    with fields show ?thesis
      by (simp add: submitToBlockchain_interleaved_def submitToBlockchain_def)
  next
    case (Inr cw)
    obtain c w where cw: "cw = (c, w)" by (cases cw)
    have wc: "while_connecting calm bc1 = bc1" by (simp add: calm_def)
    obtain r2 calls where l: "submitToBlockchain_ledger_interleaved bc1 env
        (\<lambda>c a. registered_voters env) calm request c w = (r2, bc1, calls)"
      and m: "submitToBlockchain_ledger bc1 env request c w = (r2, map anonymous calls)"
      using ledger_interleaved_calm [of bc1 env request c w]
      by (metis prod.collapse)
    from fields Inr cw wc l m show ?thesis
      by (simp add: submitToBlockchain_interleaved_def submitToBlockchain_def split: sum.splits)
  qed
qed

text \<open>
  With no disturbance, and a ledger that answers the registration query as the
  environment says whoever is asked about, the disturbed run is \<open>submitVote\<close>.
\<close>

lemma submitVote_calm:
  "fst (submitVote_interleaved svc bc env (\<lambda>c a. registered_voters env) calm request)
     = submitVote svc bc env request"
proof -
  obtain r b tr calls where i: "submitToBlockchain_interleaved bc env
      (\<lambda>c a. registered_voters env) calm request = (r, b, tr, calls)"
    by (metis prod.collapse)
  with submitToBlockchain_calm [of bc env request]
  have s: "submitToBlockchain bc env request = (r, b, tr)" by simp
  have w: "while_validating calm = (\<lambda>s. s)" "while_committing calm = (\<lambda>s. s)"
    by (simp_all add: calm_def)
  show ?thesis
    by (simp add: submitVote_interleaved_def submitVote_try_def submitVote_def
        submitVote_validate_def submitVote_resume_def submitVote_commit_def i s w Let_def
        split: prod.splits)
qed

lemma caught_any:
  "timer (caught svc bc tr sid m) =
     (if stored_retries svc sid < maxRetries
      then Some (retryDelay * (stored_retries svc sid + 1), sid) else None)"
  "response (caught svc bc tr sid m) =
     (if stored_retries svc sid < maxRetries
      then (failure m)\<lparr>retryAfter := Some (retryDelay * (stored_retries svc sid + 1))\<rparr>
      else failure m)"
  "retryAttempts (service (caught svc bc tr sid m)) sid =
     (if stored_retries svc sid < maxRetries then Some (stored_retries svc sid + 1) else None)"
  "status_of (service (caught svc bc tr sid m)) sid
     = (if statusCache svc sid = None then None else Some Failed)"
  "error_of (service (caught svc bc tr sid m)) sid
     = (if statusCache svc sid = None then None else Some m)"
  by (auto simp: caught_def submitVote_catch_def updateStatus_def stored_retries_def
      status_of_def error_of_def Let_def split: option.splits)

lemma try_returns_success:
  assumes "submitVote_try svc bc env registry d request = (Inr r, svc1, bc1, tr, calls)"
  shows "success r"
  using assms
  by (auto simp: submitVote_try_def Let_def split: prod.splits if_splits)

section \<open>Validation and earlier votes\<close>

text \<open>
  C1, as the code has it. The validation of a call does not depend on the records the
  coordinator holds, and its database check never reports a vote: validateSubmission never
  answers that the user has already voted in this election. It fails with the
  already-voted error of the ledger exactly when the request passes the field and
  freshness checks and carries a voter address, the election lookup answers with a
  contract address, the provider is initialised and the ledger answers hasVoterVoted with
  true.
\<close>

theorem validation_already_voted:
  "v_message (fst (validateSubmission bc env request))
     \<noteq> Some ''User has already voted in this election''
   \<and> (fst (validateSubmission bc env request) = invalid already_voted_msg \<longleftrightarrow>
        request_check env request = None \<and> truthy (voterAddress request)
        \<and> (\<exists>statusText c. v_election env = Response True statusText (Inr c) \<and> truthy c)
        \<and> provider bc \<and> v_voters env = Inr True)
   \<and> fst (submitVote_validate svc bc env request sid)
       = fst (submitVote_validate svc' bc env request sid)"
proof -
  have a: "v_message (fst (validateSubmission bc env request))
     \<noteq> Some ''User has already voted in this election''"
    by (simp add: validateSubmission_alt request_check_def ledger_precheck_def invalid_def
        valid_ok_def already_voted_msg_def split: option.splits fetched.splits sum.splits bool.splits)
  have b: "fst (validateSubmission bc env request) = invalid already_voted_msg \<longleftrightarrow>
        request_check env request = None \<and> truthy (voterAddress request)
        \<and> (\<exists>statusText c. v_election env = Response True statusText (Inr c) \<and> truthy c)
        \<and> provider bc \<and> v_voters env = Inr True"
  proof (cases "request_check env request")
    case None
    then show ?thesis
      by (auto simp: validateSubmission_alt ledger_precheck_def invalid_def valid_ok_def
          split: fetched.splits sum.splits bool.splits)
  next
    case (Some m)
    then have "m \<noteq> already_voted_msg"
      by (auto simp: request_check_def already_voted_msg_def split: if_splits)
    with Some show ?thesis
      by (simp add: validateSubmission_alt invalid_def)
  qed
  have c: "fst (submitVote_validate svc bc env request sid)
       = fst (submitVote_validate svc' bc env request sid)"
    by (simp add: submitVote_validate_def Let_def split: prod.splits)
  from a b c show ?thesis by blast
qed

theorem validation_already_voted_witness:
  "request_check env_healthy request_B = None \<and> truthy (voterAddress request_B)
   \<and> v_election (env_healthy\<lparr>v_voters := Inr True\<rparr>) = Response True ''OK'' (Inr ''0xc'')
   \<and> fst (validateSubmission chain_ready (env_healthy\<lparr>v_voters := Inr True\<rparr>) request_B)
       = invalid already_voted_msg
   \<and> fst (validateSubmission chain_ready env_healthy request_B) \<noteq> invalid already_voted_msg"
proof -
  have h: "request_check (env_healthy\<lparr>v_voters := Inr True\<rparr>) request_B = None"
    "request_check env_healthy request_B = None"
    "truthy (voterAddress request_B)"
    "v_election (env_healthy\<lparr>v_voters := Inr True\<rparr>) = Response True ''OK'' (Inr ''0xc'')"
    "truthy ''0xc''" "provider chain_ready"
    "v_voters (env_healthy\<lparr>v_voters := Inr True\<rparr>) = Inr True"
    "v_voters env_healthy \<noteq> Inr True"
    by (simp_all add: request_check_def truthy_def run_defs request_B_def)
  from validation_already_voted [of chain_ready "env_healthy\<lparr>v_voters := Inr True\<rparr>" request_B]
    validation_already_voted [of chain_ready env_healthy request_B] h
  show ?thesis by blast
qed

text \<open>
  C1 as written fails: a first call for election e1 and voter v1 ends confirmed; a
  second call for the same election and voter then passes validation and ends confirmed as
  well, so that two records of the pair are confirmed. In the second call the
  duplicate-vote query times out, the registration query answers true and the ledger
  includes the vote transaction.
\<close>

theorem second_vote_confirmed:
  "electionId request_A = ''e1'' \<and> voterId request_A = ''v1''
   \<and> status_of (service (submitVote empty_service chain_ready env_healthy request_A))
        ''vote_rs_aaaaaa'' = Some Confirmed
   \<and> fst (validateSubmission
        (chain (submitVote empty_service chain_ready env_healthy request_A)) env_again request_A)
       = valid_ok
   \<and> success (response (submitVote
        (service (submitVote empty_service chain_ready env_healthy request_A))
        (chain (submitVote empty_service chain_ready env_healthy request_A)) env_again request_A))
       = True
   \<and> status_of (service (submitVote
        (service (submitVote empty_service chain_ready env_healthy request_A))
        (chain (submitVote empty_service chain_ready env_healthy request_A)) env_again request_A))
        ''vote_rs_aaaaaa'' = Some Confirmed
   \<and> status_of (service (submitVote
        (service (submitVote empty_service chain_ready env_healthy request_A))
        (chain (submitVote empty_service chain_ready env_healthy request_A)) env_again request_A))
        ''vote_rs_bbbbbb'' = Some Confirmed"
  by (simp add: model_defs run_defs)

section \<open>A voter the ledger reports as having voted\<close>









section \<open>The retry budget\<close>

lemma generateSubmissionId_inj:
  "generateSubmissionId e request = generateSubmissionId e' request \<longleftrightarrow> random_id e = random_id e'"
  by (simp add: generateSubmissionId_def)

lemma bad_code_rejected:
  "length (verificationCode request) \<noteq> 6 \<Longrightarrow> request_check env request \<noteq> None"
  by (simp add: request_check_def)

lemma rejected_attempt:
  fixes svc bc env request
  defines "sid \<equiv> generateSubmissionId env request"
  defines "out \<equiv> submitVote svc bc env request"
  assumes rejected: "request_check env request \<noteq> None"
    and fresh: "retryAttempts svc sid = None"
  shows "\<not> success (response out)" "timer out = Some (retryDelay, sid)"
    "submissionQueue (service out) sid = Some request"
    "retryAttempts (service out) = (retryAttempts svc)(sid \<mapsto> 1)"
proof -
  from rejected obtain m where "request_check env request = Some m" by auto
  then have nv: "\<not> valid (fst (validateSubmission bc env request))"
    by (simp add: request_check_rejects(1) invalid_def)
  show f: "\<not> success (response out)"
  proof (cases rule: submitVote_cases [of bc env request svc])
    case (invalid svc1 m)
    note vs = validate_state [OF invalid(2)]
    from vs(1) obtain c where "statusCache svc1 (generateSubmissionId env request) = Some c"
      by auto
    from caught_summary(1) [OF this] invalid(3) show ?thesis
      by (simp add: out_def)
  qed (use nv in simp_all)
  from f obtain svc1 bc1 tr m c where
    out: "out = caught svc1 bc1 tr sid m" and c: "statusCache svc1 sid = Some c"
    and r: "stored_retries svc1 sid = stored_retries svc sid"
    and q: "submissionQueue svc1 sid = Some request"
    and ra: "retryAttempts svc1 = retryAttempts svc"
    unfolding out_def sid_def by (rule submitVote_failed)
  from fresh have r0: "stored_retries svc sid = 0" by (simp add: stored_retries_def)
  show "timer out = Some (retryDelay, sid)"
    "submissionQueue (service out) sid = Some request"
    "retryAttempts (service out) = (retryAttempts svc)(sid \<mapsto> 1)"
    using caught_summary [OF c, of bc1 tr m] r r0 q ra
    by (simp_all add: out maxRetries_def)
qed

lemma run_timers_never_stops:
  assumes "length (verificationCode request) \<noteq> 6"
    and "distinct (map random_id envs)"
    and "\<forall>e \<in> set envs. retryAttempts svc (generateSubmissionId e request) = None"
    and "submissionQueue svc (snd t) = Some request"
  shows "length (fst (run_timers svc bc (Some t) envs)) = length envs
       \<and> (\<forall>out \<in> set (fst (run_timers svc bc (Some t) envs)).
            \<not> success (response out) \<and> timer out \<noteq> None)
       \<and> snd (run_timers svc bc (Some t) envs) \<noteq> None"
  using assms
proof (induction envs arbitrary: svc bc t)
  case Nil
  then show ?case by simp
next
  case (Cons e envs)
  let ?out = "submitVote svc bc e request"
  let ?sid = "generateSubmissionId e request"
  have fresh: "retryAttempts svc ?sid = None" using Cons.prems(3) by simp
  note a = rejected_attempt [OF bad_code_rejected [OF Cons.prems(1)] fresh, of bc]
  have retry: "retrySubmission svc bc e (snd t) = Some ?out"
    using Cons.prems(4) by (simp add: retrySubmission_def)
  have later: "\<forall>e' \<in> set envs. retryAttempts (service ?out) (generateSubmissionId e' request) = None"
  proof
    fix e' assume e': "e' \<in> set envs"
    with Cons.prems(2) have "random_id e' \<noteq> random_id e" by (metis distinct.simps(2) image_eqI list.simps(9) set_map)
    then have "generateSubmissionId e' request \<noteq> ?sid"
      by (simp add: generateSubmissionId_inj)
    with Cons.prems(3) e' show "retryAttempts (service ?out) (generateSubmissionId e' request) = None"
      by (simp add: a(4))
  qed
  have d: "distinct (map random_id envs)" using Cons.prems(2) by simp
  have q: "submissionQueue (service ?out) (snd (retryDelay, ?sid)) = Some request"
    using a(3) by simp
  note ih = Cons.IH [OF Cons.prems(1) d later q, of "chain ?out"]
  show ?case
    using ih a(1,2) retry by (simp add: split_beta)
qed

text \<open>
  C3, what the code does. A request that validation rejects for its verification code is
  rejected at every attempt. Each retry runs submitVote again, which gives the attempt a
  new submission id, so that the retry count it finds is that of the new id. When the
  random suffixes of the attempts differ, every attempt fails and sets the timer of the
  next one, however many attempts are made: maxRetries does not bound them.
\<close>

theorem retries_not_bounded_by_maxRetries:
  fixes svc bc env envs request
  defines "out \<equiv> submitVote svc bc env request"
  assumes "length (verificationCode request) \<noteq> 6"
    and "distinct (map random_id (env # envs))"
    and "\<forall>e \<in> set (env # envs). retryAttempts svc (generateSubmissionId e request) = None"
  shows "\<not> success (response out) \<and> timer out \<noteq> None
       \<and> length (fst (run_timers (service out) (chain out) (timer out) envs)) = length envs
       \<and> (\<forall>a \<in> set (fst (run_timers (service out) (chain out) (timer out) envs)).
            \<not> success (response a) \<and> timer a \<noteq> None)
       \<and> snd (run_timers (service out) (chain out) (timer out) envs) \<noteq> None"
proof -
  let ?sid = "generateSubmissionId env request"
  have fresh: "retryAttempts svc ?sid = None" using assms(4) by simp
  note a = rejected_attempt [OF bad_code_rejected [OF assms(2)] fresh, of bc]
  have later: "\<forall>e' \<in> set envs. retryAttempts (service out) (generateSubmissionId e' request) = None"
  proof
    fix e' assume e': "e' \<in> set envs"
    with assms(3) have "random_id e' \<noteq> random_id env" by (metis distinct.simps(2) image_eqI list.simps(9) set_map)
    then have "generateSubmissionId e' request \<noteq> ?sid"
      by (simp add: generateSubmissionId_inj)
    with assms(4) e' show "retryAttempts (service out) (generateSubmissionId e' request) = None"
      by (simp add: a(4) out_def)
  qed
  have d: "distinct (map random_id envs)" using assms(3) by simp
  have q: "submissionQueue (service out) (snd (retryDelay, ?sid)) = Some request"
    using a(3) by (simp add: out_def)
  from run_timers_never_stops [OF assms(2) d later q, of "chain out"] a(1,2)
  show ?thesis by (simp add: out_def)
qed

theorem retries_not_bounded_by_maxRetries_witness:
  "length (verificationCode request_app) \<noteq> 6
   \<and> distinct (map random_id (env_healthy # envs_retry))
   \<and> length envs_retry = 4 \<and> maxRetries = 3
   \<and> length (fst (run_timers
        (service (submitVote empty_service chain_ready env_healthy request_app))
        (chain (submitVote empty_service chain_ready env_healthy request_app))
        (timer (submitVote empty_service chain_ready env_healthy request_app)) envs_retry)) = 4
   \<and> snd (run_timers
        (service (submitVote empty_service chain_ready env_healthy request_app))
        (chain (submitVote empty_service chain_ready env_healthy request_app))
        (timer (submitVote empty_service chain_ready env_healthy request_app)) envs_retry) \<noteq> None"
proof -
  have h: "length (verificationCode request_app) \<noteq> 6"
    "distinct (map random_id (env_healthy # envs_retry))"
    "\<forall>e \<in> set (env_healthy # envs_retry).
       retryAttempts empty_service (generateSubmissionId e request_app) = None"
    "length envs_retry = 4" "maxRetries = 3"
    by (simp_all add: request_app_def envs_retry_def env_healthy_def empty_service_def
        maxRetries_def)
  from retries_not_bounded_by_maxRetries [OF h(1,2,3), of chain_ready] h
  show ?thesis by simp
qed

section \<open>Retry after a failed attempt\<close>

text \<open>
  C4, as the code has it. Take an attempt of submitVote that fails, for whatever reason
  and whatever other calls do to the coordinator while it waits, and let r be the retry
  count that its catch block reads for its submission id. When r is below maxRetries the
  attempt sets the status of its record to failed with the error message, if the record is
  still in the status cache, and never to pending; it sets a timer of exactly
  5000 * (r + 1) milliseconds for the next attempt, reports that delay as retryAfter, and
  stores the retry count r + 1.
\<close>

theorem failed_attempt_schedules_retry:
  fixes svc bc env registry d request
  defines "sid \<equiv> generateSubmissionId env request"
  defines "out \<equiv> fst (submitVote_interleaved svc bc env registry d request)"
  defines "found \<equiv> fst (snd (submitVote_try svc bc env registry d request))"
  defines "r \<equiv> stored_retries found sid"
  assumes fails: "\<not> success (response out)" and budget: "r < maxRetries"
  shows "status_of (service out) sid
           = (if statusCache found sid = None then None else Some Failed)
       \<and> error_of (service out) sid
           = (if statusCache found sid = None then None else r_error (response out))
       \<and> status_of (service out) sid \<noteq> Some Pending
       \<and> timer out = Some (5000 * (r + 1), sid)
       \<and> retryAfter (response out) = Some (5000 * (r + 1))
       \<and> retryAttempts (service out) sid = Some (r + 1)"
proof -
  obtain res bc1 tr calls where
    t: "submitVote_try svc bc env registry d request = (res, found, bc1, tr, calls)"
    unfolding found_def by (metis fst_conv prod.collapse snd_conv)
  show ?thesis
  proof (cases res)
    case (Inl m)
    with t have out: "out = caught found bc1 tr sid m"
      by (simp add: out_def submitVote_interleaved_def sid_def)
    show ?thesis
      using caught_any [of found bc1 tr sid m] budget
      by (simp add: out r_def retryDelay_def)
  next
    case (Inr resp)
    with t try_returns_success [of svc bc env registry d request resp found bc1 tr calls] fails
    show ?thesis by (simp add: out_def submitVote_interleaved_def)
  qed
qed

theorem failed_attempt_schedules_retry_witness:
  "\<not> success (response (fst (submitVote_interleaved empty_service chain_ready env_backend_down
        nobody_registered cancelled_meanwhile request_A)))
   \<and> stored_retries (fst (snd (submitVote_try empty_service chain_ready env_backend_down
        nobody_registered cancelled_meanwhile request_A))) ''vote_rs_aaaaaa'' = 0
   \<and> status_of (service (fst (submitVote_interleaved empty_service chain_ready env_backend_down
        nobody_registered cancelled_meanwhile request_A))) ''vote_rs_aaaaaa'' = Some Failed
   \<and> timer (fst (submitVote_interleaved empty_service chain_ready env_backend_down
        nobody_registered cancelled_meanwhile request_A)) = Some (5000, ''vote_rs_aaaaaa'')
   \<and> retryAfter (response (fst (submitVote_interleaved empty_service chain_ready
        env_backend_down nobody_registered cancelled_meanwhile request_A))) = Some 5000
   \<and> retryAttempts (service (fst (submitVote_interleaved empty_service chain_ready
        env_backend_down nobody_registered cancelled_meanwhile request_A))) ''vote_rs_aaaaaa''
       = Some 1
   \<and> submissionQueue (service (fst (submitVote_interleaved empty_service chain_ready
        env_backend_down nobody_registered cancelled_meanwhile request_A))) ''vote_rs_aaaaaa''
       = None"
proof -
  have sid: "generateSubmissionId env_backend_down request_A = ''vote_rs_aaaaaa''"
    by (simp add: model_defs run_defs)
  have f: "\<not> success (response (fst (submitVote_interleaved empty_service chain_ready
        env_backend_down nobody_registered cancelled_meanwhile request_A)))"
    by (simp add: model_defs interleaved_defs run_defs disturbed_defs)
  have r: "stored_retries (fst (snd (submitVote_try empty_service chain_ready env_backend_down
        nobody_registered cancelled_meanwhile request_A))) ''vote_rs_aaaaaa'' = 0"
    by (simp add: model_defs interleaved_defs run_defs disturbed_defs)
  have c: "statusCache (fst (snd (submitVote_try empty_service chain_ready env_backend_down
        nobody_registered cancelled_meanwhile request_A))) ''vote_rs_aaaaaa'' \<noteq> None"
    by (simp add: model_defs interleaved_defs run_defs disturbed_defs)
  have q: "submissionQueue (service (fst (submitVote_interleaved empty_service chain_ready
        env_backend_down nobody_registered cancelled_meanwhile request_A))) ''vote_rs_aaaaaa''
       = None"
    by (simp add: model_defs interleaved_defs run_defs disturbed_defs)
  have b: "stored_retries (fst (snd (submitVote_try empty_service chain_ready env_backend_down
        nobody_registered cancelled_meanwhile request_A)))
        (generateSubmissionId env_backend_down request_A) < maxRetries"
    by (simp add: sid r maxRetries_def)
  from failed_attempt_schedules_retry [OF f b] f q c show ?thesis
    unfolding sid r by simp
qed

text \<open>
  C4 as written fails: after a failed attempt with a retry scheduled the record is
  in status failed, not pending. Here the backend is unavailable on the first attempt.
\<close>

theorem retry_status_is_failed_not_pending:
  "r_error (response (submitVote empty_service chain_ready env_backend_down request_A))
     = Some ''Backend service unavailable''
   \<and> stored_retries empty_service ''vote_rs_aaaaaa'' < maxRetries
   \<and> timer (submitVote empty_service chain_ready env_backend_down request_A)
       = Some (5000, ''vote_rs_aaaaaa'')
   \<and> status_of (service (submitVote empty_service chain_ready env_backend_down request_A))
        ''vote_rs_aaaaaa'' = Some Failed
   \<and> status_of (service (submitVote empty_service chain_ready env_backend_down request_A))
        ''vote_rs_aaaaaa'' \<noteq> Some Pending"
  by (simp add: model_defs run_defs)

section \<open>No vote before registration\<close>

lemma setup_wallet:
  assumes "submitToBlockchain_setup bc env request = (Inr (c, w), bc1, tr)"
  shows "wallet bc1 = Some (address w)"
  using assms
  by (auto simp: submitToBlockchain_setup_def connectWallet_def Let_def
      split: fetched.splits sum.splits if_splits prod.splits)

text \<open>The calls to the ledger that one run makes, in its five possible ends.\<close>

lemma ledger_calls_cases:
  fixes bc env registry d request c w
  defines "a \<equiv> address w"
  defines "bc3 \<equiv> while_asking_registered d (while_asking_voted d bc)"
  defines "calls \<equiv> snd (snd (submitToBlockchain_ledger_interleaved bc env registry d request c w))"
  shows "(\<exists>r. calls = [AskedVoted c a r])
       \<or> (\<exists>r. calls = [AskedVoted c a (Inr False), AskedRegistered c a r])
       \<or> calls = [AskedVoted c a (Inr False), AskedRegistered c a (Inr False),
                   Registered c (wallet bc3) False]
       \<or> (\<exists>ok. calls = [AskedVoted c a (Inr False), AskedRegistered c a (Inr False),
                   Registered c (wallet bc3) True, Voted c (wallet (while_registering d bc3)) ok])
       \<or> (\<exists>ok. calls = [AskedVoted c a (Inr False), AskedRegistered c a (Inr True),
                   Voted c (wallet bc3) ok]
            \<and> registry c a = Inr True)"
  unfolding calls_def a_def bc3_def
  by (auto simp: submitToBlockchain_ledger_interleaved_def cast_call_def isVoterRegistered_def
      voters_query_def Let_def split: sum.splits if_splits)

lemma voted_in_ledger_calls:
  fixes bc env registry d request c w
  defines "a \<equiv> address w"
  defines "calls \<equiv> snd (snd (submitToBlockchain_ledger_interleaved bc env registry d request c w))"
  assumes v: "calls = pre @ Voted c' s ok # post"
  shows "((\<exists>a'. AskedRegistered c' a' (Inr True) \<in> set pre)
          \<or> (\<exists>s'. Registered c' s' True \<in> set pre))
       \<and> (keeps_wallet d \<and> wallet bc = Some a \<longrightarrow>
            s = Some a
            \<and> ((AskedRegistered c' a (Inr True) \<in> set pre \<and> registry c' a = Inr True)
               \<or> Registered c' (Some a) True \<in> set pre))"
proof -
  let ?bc3 = "while_asking_registered d (while_asking_voted d bc)"
  have kw: "keeps_wallet d \<Longrightarrow> wallet ?bc3 = wallet bc
              \<and> wallet (while_registering d ?bc3) = wallet bc"
    by (simp add: keeps_wallet_def)
  from ledger_calls_cases [where bc = bc and env = env and registry = registry and d = d
      and request = request and c = c and w = w]
  consider (voted) r where "calls = [AskedVoted c a r]"
    | (asked) r where "calls = [AskedVoted c a (Inr False), AskedRegistered c a r]"
    | (refused) "calls = [AskedVoted c a (Inr False), AskedRegistered c a (Inr False),
                   Registered c (wallet ?bc3) False]"
    | (registered) ok' where "calls = [AskedVoted c a (Inr False), AskedRegistered c a (Inr False),
                   Registered c (wallet ?bc3) True, Voted c (wallet (while_registering d ?bc3)) ok']"
    | (known) ok' where "calls = [AskedVoted c a (Inr False), AskedRegistered c a (Inr True),
                   Voted c (wallet ?bc3) ok']" "registry c a = Inr True"
    unfolding calls_def a_def by blast
  then show ?thesis
  proof cases
    case (voted r)
    with v show ?thesis by (auto simp: Cons_eq_append_conv)
  next
    case (asked r)
    with v show ?thesis by (auto simp: Cons_eq_append_conv)
  next
    case refused
    with v show ?thesis by (auto simp: Cons_eq_append_conv)
  next
    case (registered ok')
    with v have "pre = [AskedVoted c a (Inr False), AskedRegistered c a (Inr False),
                   Registered c (wallet ?bc3) True]"
      "c' = c" "s = wallet (while_registering d ?bc3)"
      by (auto simp: Cons_eq_append_conv)
    with kw show ?thesis by auto
  next
    case (known ok')
    with v have "pre = [AskedVoted c a (Inr False), AskedRegistered c a (Inr True)]"
      "c' = c" "s = wallet ?bc3"
      by (auto simp: Cons_eq_append_conv)
    with kw known(2) show ?thesis by auto
  qed
qed

lemma submitVote_interleaved_calls:
  fixes svc bc env registry d request
  defines "calls \<equiv> snd (submitVote_interleaved svc bc env registry d request)"
  shows "calls = []
       \<or> (\<exists>c w bc1 tr. submitToBlockchain_setup bc env request = (Inr (c, w), bc1, tr)
            \<and> calls = snd (snd (submitToBlockchain_ledger_interleaved (while_connecting d bc1)
                 env registry d request c w)))"
proof -
  have b: "snd (snd (snd (submitToBlockchain_interleaved bc env registry d request))) = []
       \<or> (\<exists>c w bc1 tr. submitToBlockchain_setup bc env request = (Inr (c, w), bc1, tr)
            \<and> snd (snd (snd (submitToBlockchain_interleaved bc env registry d request)))
              = snd (snd (submitToBlockchain_ledger_interleaved (while_connecting d bc1)
                 env registry d request c w)))"
    by (auto simp: submitToBlockchain_interleaved_def split: prod.splits sum.splits)
  have "calls = [] \<or> calls = snd (snd (snd (submitToBlockchain_interleaved bc env registry d request)))"
    unfolding calls_def
    by (auto simp: submitVote_interleaved_def submitVote_try_def Let_def
        split: prod.splits sum.splits if_splits)
  with b show ?thesis by auto
qed

text \<open>
  C5, as the code has it. In the calls that a call of submitVote makes to the ledger,
  whatever other calls do meanwhile, every castVote comes after a registration query
  isVoterRegistered on the same contract that returned true or after a registerVoter
  transaction on it that completed successfully. When no other call replaces the wallet of
  the ledger client during the call, the vote is signed by the very address about which
  the ledger answered that it is registered, or which registerVoter registered with
  success.
\<close>

theorem castVote_only_after_registration:
  assumes "snd (submitVote_interleaved svc bc env registry d request) = pre @ Voted c s ok # post"
  shows "((\<exists>a. AskedRegistered c a (Inr True) \<in> set pre)
          \<or> (\<exists>s'. Registered c s' True \<in> set pre))
       \<and> (keeps_wallet d \<longrightarrow>
            (\<exists>a. s = Some a
               \<and> ((AskedRegistered c a (Inr True) \<in> set pre \<and> registry c a = Inr True)
                  \<or> Registered c (Some a) True \<in> set pre)))"
proof -
  from submitVote_interleaved_calls [of svc bc env registry d request] assms
  obtain c0 w bc1 tr where
    s: "submitToBlockchain_setup bc env request = (Inr (c0, w), bc1, tr)"
    and l: "snd (snd (submitToBlockchain_ledger_interleaved (while_connecting d bc1)
                 env registry d request c0 w)) = pre @ Voted c s ok # post"
    by auto
  have w: "keeps_wallet d \<Longrightarrow> wallet (while_connecting d bc1) = Some (address w)"
    using setup_wallet [OF s] by (simp add: keeps_wallet_def)
  from voted_in_ledger_calls [OF l] w show ?thesis by blast
qed

theorem castVote_only_after_registration_witness:
  "snd (submitVote_interleaved empty_service chain_ready env_healthy nobody_registered calm request_A)
     = [AskedVoted ''0xc'' ''0xa'' (Inr False), AskedRegistered ''0xc'' ''0xa'' (Inr False),
        Registered ''0xc'' (Some ''0xa'') True] @ Voted ''0xc'' (Some ''0xa'') True # []
   \<and> snd (submitVote_interleaved empty_service chain_ready env_healthy only_a_registered calm
          request_A)
     = [AskedVoted ''0xc'' ''0xa'' (Inr False), AskedRegistered ''0xc'' ''0xa'' (Inr True)]
        @ Voted ''0xc'' (Some ''0xa'') True # []
   \<and> keeps_wallet calm
   \<and> Registered ''0xc'' (Some ''0xa'') True
       \<in> set [AskedVoted ''0xc'' ''0xa'' (Inr False), AskedRegistered ''0xc'' ''0xa'' (Inr False),
              Registered ''0xc'' (Some ''0xa'') True]
   \<and> AskedRegistered ''0xc'' ''0xa'' (Inr True)
       \<in> set [AskedVoted ''0xc'' ''0xa'' (Inr False), AskedRegistered ''0xc'' ''0xa'' (Inr True)]
   \<and> only_a_registered ''0xc'' ''0xa'' = Inr True"
proof -
  have t: "snd (submitVote_interleaved empty_service chain_ready env_healthy nobody_registered
        calm request_A)
     = [AskedVoted ''0xc'' ''0xa'' (Inr False), AskedRegistered ''0xc'' ''0xa'' (Inr False),
        Registered ''0xc'' (Some ''0xa'') True] @ Voted ''0xc'' (Some ''0xa'') True # []"
    by (simp add: model_defs interleaved_defs run_defs disturbed_defs)
  have u: "snd (submitVote_interleaved empty_service chain_ready env_healthy only_a_registered
        calm request_A)
     = [AskedVoted ''0xc'' ''0xa'' (Inr False), AskedRegistered ''0xc'' ''0xa'' (Inr True)]
        @ Voted ''0xc'' (Some ''0xa'') True # []"
    by (simp add: model_defs interleaved_defs run_defs disturbed_defs)
  have k: "keeps_wallet calm" by (simp add: keeps_wallet_def calm_def)
  from castVote_only_after_registration [OF t] castVote_only_after_registration [OF u] k t u
  show ?thesis by simp
qed

text \<open>
  C5 as written fails. The call connects the wallet 0xa and asks the ledger whether 0xa is
  registered; while it waits for the answer, another call of submitVote, such as the retry
  of another user's submission, connects the wallet 0xb on the same ledger client. The answer is that 0xa is registered, and castVote then signs the
  vote with the wallet the client holds, 0xb, about which the ledger was not asked, which
  was not registered in the call, and which the ledger reports as not registered. The call
  ends confirmed.
\<close>

theorem castVote_signed_by_other_wallet:
  "snd (submitVote_interleaved empty_service chain_ready env_healthy only_a_registered
          other_wallet_meanwhile request_A)
     = [AskedVoted ''0xc'' ''0xa'' (Inr False), AskedRegistered ''0xc'' ''0xa'' (Inr True),
        Voted ''0xc'' (Some ''0xb'') True]
   \<and> only_a_registered ''0xc'' ''0xb'' = Inr False
   \<and> success (response (fst (submitVote_interleaved empty_service chain_ready env_healthy
        only_a_registered other_wallet_meanwhile request_A))) = True
   \<and> status_of (service (fst (submitVote_interleaved empty_service chain_ready env_healthy
        only_a_registered other_wallet_meanwhile request_A))) ''vote_rs_aaaaaa'' = Some Confirmed"
  by (simp add: model_defs interleaved_defs run_defs disturbed_defs)

section \<open>A second call while a first is in flight\<close>

text \<open>
  C6, as the code has it. submitVote makes no in-flight check. Whatever the queue and the
  status cache hold, also a submission for the same election and voter in status
  processing, a call is entered in the queue under its own submission id, and its
  response, the calls it makes, the state in which it leaves the ledger client and the
  timer it sets are those of the same call on any other service state with the same retry
  count stored for that id: no call is rejected because another is in flight.
\<close>

theorem submitVote_ignores_in_flight:
  fixes svc svc' bc env request
  defines "sid \<equiv> generateSubmissionId env request"
  assumes same: "retryAttempts svc sid = retryAttempts svc' sid"
  shows "submissionQueue (fst (snd (submitVote_validate svc bc env request sid))) sid = Some request
       \<and> response (submitVote svc bc env request) = response (submitVote svc' bc env request)
       \<and> trace (submitVote svc bc env request) = trace (submitVote svc' bc env request)
       \<and> chain (submitVote svc bc env request) = chain (submitVote svc' bc env request)
       \<and> timer (submitVote svc bc env request) = timer (submitVote svc' bc env request)"
proof -
  have q: "submissionQueue (fst (snd (submitVote_validate svc bc env request sid))) sid = Some request"
    by (cases "submitVote_validate svc bc env request sid") (simp add: validate_state(2))
  have "response (submitVote svc bc env request) = response (submitVote svc' bc env request)
       \<and> trace (submitVote svc bc env request) = trace (submitVote svc' bc env request)
       \<and> chain (submitVote svc bc env request) = chain (submitVote svc' bc env request)
       \<and> timer (submitVote svc bc env request) = timer (submitVote svc' bc env request)"
    using same
    by (auto simp: submitVote_def submitVote_validate_def submitVote_enqueue_def
        submitVote_resume_def submitVote_commit_def caught_def submitVote_catch_def
        updateStatus_def sid_def Let_def split: prod.splits)
  with q show ?thesis by simp
qed

theorem submitVote_ignores_in_flight_witness:
  "retryAttempts in_flight ''vote_rs_bbbbbb'' = retryAttempts empty_service ''vote_rs_bbbbbb''
   \<and> response (submitVote in_flight chain_ready env_second request_A)
       = response (submitVote empty_service chain_ready env_second request_A)"
proof -
  have sid: "generateSubmissionId env_second request_A = ''vote_rs_bbbbbb''"
    by (simp add: model_defs run_defs)
  have r: "retryAttempts in_flight (generateSubmissionId env_second request_A)
      = retryAttempts empty_service (generateSubmissionId env_second request_A)"
    by (simp add: model_defs run_defs)
  note t = submitVote_ignores_in_flight [OF r, of chain_ready]
  from t r show ?thesis unfolding sid by blast
qed

text \<open>
  C6 as written fails: while a first submission for election e1 and voter v1 is in
  status processing, a second call for the same election and voter is entered in the
  queue beside it, is not failed, and ends confirmed.
\<close>

theorem second_submission_accepted_in_flight:
  "status_of in_flight ''vote_rs_aaaaaa'' = Some Processing
   \<and> submissionQueue in_flight ''vote_rs_aaaaaa'' = Some request_A
   \<and> submissionQueue (fst (snd (submitVote_validate in_flight chain_ready env_second request_A
        ''vote_rs_bbbbbb''))) ''vote_rs_aaaaaa'' = Some request_A
   \<and> submissionQueue (fst (snd (submitVote_validate in_flight chain_ready env_second request_A
        ''vote_rs_bbbbbb''))) ''vote_rs_bbbbbb'' = Some request_A
   \<and> status_of (fst (snd (submitVote_validate in_flight chain_ready env_second request_A
        ''vote_rs_bbbbbb''))) ''vote_rs_bbbbbb'' = Some Processing
   \<and> success (response (submitVote in_flight chain_ready env_second request_A)) = True
   \<and> r_error (response (submitVote in_flight chain_ready env_second request_A)) = None
   \<and> status_of (service (submitVote in_flight chain_ready env_second request_A))
        ''vote_rs_bbbbbb'' = Some Confirmed"
  by (simp add: model_defs run_defs)

section \<open>An expired request\<close>







section \<open>The backend confirmation\<close>

lemma digit_char_inj:
  assumes "digit_char d = digit_char d'" "d < 36" "d' < 36"
  shows "d = d'"
proof -
  have "distinct ''0123456789abcdefghijklmnopqrstuvwxyz''" by simp
  moreover have "length ''0123456789abcdefghijklmnopqrstuvwxyz'' = 36" by simp
  ultimately show ?thesis
    using assms unfolding digit_char_def by (metis nth_eq_iff_index_eq)
qed

lemma digit_char_not_minus: "d < 36 \<Longrightarrow> digit_char d \<noteq> CHR ''-''"
proof -
  have "CHR ''-'' \<notin> set ''0123456789abcdefghijklmnopqrstuvwxyz''" by simp
  moreover have "length ''0123456789abcdefghijklmnopqrstuvwxyz'' = 36" by simp
  ultimately show "d < 36 \<Longrightarrow> digit_char d \<noteq> CHR ''-''"
    unfolding digit_char_def by (metis nth_mem)
qed

lemma nat_to_radix_small: "n < b \<Longrightarrow> nat_to_radix b n = [digit_char n]"
  by (simp add: nat_to_radix.simps)

lemma nat_to_radix_large:
  "2 \<le> b \<Longrightarrow> b \<le> n \<Longrightarrow> nat_to_radix b n = nat_to_radix b (n div b) @ [digit_char (n mod b)]"
  by (subst nat_to_radix.simps) simp

lemma nat_to_radix_not_Nil [simp]: "nat_to_radix b n \<noteq> []" "[] \<noteq> nat_to_radix b n"
  by (subst nat_to_radix.simps, simp)+

lemma nat_to_radix_hd:
  "2 \<le> b \<Longrightarrow> b \<le> 36 \<Longrightarrow> hd (nat_to_radix b n) \<noteq> CHR ''-''"
proof (induction b n rule: nat_to_radix.induct)
  case (1 b n)
  show ?case
  proof (cases "n < b")
    case True
    with 1 show ?thesis by (simp add: nat_to_radix_small digit_char_not_minus)
  next
    case False
    with 1 show ?thesis
      by (simp add: nat_to_radix_large)
  qed
qed

lemma nat_to_radix_inj:
  "2 \<le> b \<Longrightarrow> b \<le> 36 \<Longrightarrow> nat_to_radix b n = nat_to_radix b m \<Longrightarrow> n = m"
proof (induction b n arbitrary: m rule: nat_to_radix.induct)
  case (1 b n)
  show ?case
  proof (cases "n < b")
    case n: True
    show ?thesis
    proof (cases "m < b")
      case True
      with n 1 show ?thesis
        by (auto simp: nat_to_radix_small intro: digit_char_inj)
    next
      case False
      with n 1 have "[digit_char n] = nat_to_radix b (m div b) @ [digit_char (m mod b)]"
        by (simp add: nat_to_radix_small nat_to_radix_large)
      then show ?thesis by simp
    qed
  next
    case n: False
    show ?thesis
    proof (cases "m < b")
      case True
      with n 1 have "nat_to_radix b (n div b) @ [digit_char (n mod b)] = [digit_char m]"
        by (simp add: nat_to_radix_small nat_to_radix_large)
      then show ?thesis by simp
    next
      case False
      with n 1 have e: "nat_to_radix b (n div b) = nat_to_radix b (m div b)"
        "digit_char (n mod b) = digit_char (m mod b)"
        by (simp_all add: nat_to_radix_large)
      from 1 have b: "0 < b" by simp
      have "n mod b < 36" "m mod b < 36"
        using 1(3) b by (meson mod_less_divisor less_le_trans)+
      with e(2) have md: "n mod b = m mod b" by (rule digit_char_inj)
      from 1(1) [of "m div b"] n 1(2,3) e(1) have dv: "n div b = m div b" by simp
      from md dv show ?thesis by (metis div_mult_mod_eq)
    qed
  qed
qed

lemma int_to_radix_inj:
  assumes "2 \<le> b" "b \<le> 36" "int_to_radix b i = int_to_radix b j"
  shows "i = j"
proof -
  have neg: "\<And>n m. CHR ''-'' # nat_to_radix b n \<noteq> nat_to_radix b m"
    using nat_to_radix_hd [OF assms(1,2)] by (metis list.sel(1))
  show ?thesis
  proof (cases "i < 0"; cases "j < 0")
    assume "i < 0" "j < 0"
    with assms have "nat (- i) = nat (- j)"
      by (auto simp: int_to_radix_def dest: nat_to_radix_inj)
    with \<open>i < 0\<close> \<open>j < 0\<close> show ?thesis by simp
  next
    assume "i < 0" "\<not> j < 0"
    with assms(3) neg show ?thesis by (simp add: int_to_radix_def)
  next
    assume "\<not> i < 0" "j < 0"
    with assms(3) neg [of "nat (- j)" "nat i"] show ?thesis by (simp add: int_to_radix_def)
  next
    assume "\<not> i < 0" "\<not> j < 0"
    with assms have "nat i = nat j"
      by (auto simp: int_to_radix_def dest: nat_to_radix_inj)
    with \<open>\<not> i < 0\<close> \<open>\<not> j < 0\<close> show ?thesis by simp
  qed
qed

text \<open>
  C8, as the code has it. submitToBackend sends nothing and records nothing: its answer
  is a function of the clock, of the random draw and of the candidate id, and does not
  depend on the election, the voter or the transaction hash. Two calls that succeed for
  the same candidate return the same confirmationId exactly when they read the same
  clock value.
\<close>

theorem submitToBackend_confirmationId:
  "(now_backend env = now_backend env' \<and> backend_random env = backend_random env'
      \<and> candidateId request = candidateId request'
      \<longrightarrow> submitToBackend env request txHash = submitToBackend env' request' txHash')
   \<and> (success (submitToBackend env request txHash) \<and> success (submitToBackend env' request' txHash')
      \<and> candidateId request = candidateId request'
      \<longrightarrow> (confirmationId (submitToBackend env request txHash)
             = confirmationId (submitToBackend env' request' txHash')
           \<longleftrightarrow> now_backend env = now_backend env'))"
proof -
  have inj: "int_to_radix 10 (now_backend env) = int_to_radix 10 (now_backend env')
      \<longleftrightarrow> now_backend env = now_backend env'"
    using int_to_radix_inj [of 10 "now_backend env" "now_backend env'"] by auto
  show ?thesis
    using inj by (auto simp: submitToBackend_def Let_def split: if_splits)
qed

theorem submitToBackend_confirmationId_witness:
  "success (submitToBackend env_healthy request_A (Some ''0xabc''))
   \<and> success (submitToBackend env_second request_B (Some ''0xdef''))
   \<and> now_backend env_healthy = now_backend env_second
   \<and> confirmationId (submitToBackend env_healthy request_A (Some ''0xabc''))
       = confirmationId (submitToBackend env_second request_B (Some ''0xdef''))"
proof -
  have h: "success (submitToBackend env_healthy request_A (Some ''0xabc''))"
    "success (submitToBackend env_second request_B (Some ''0xdef''))"
    "candidateId request_A = candidateId request_B"
    "now_backend env_healthy = now_backend env_second"
    by (simp_all add: submitToBackend_def run_defs request_B_def env_second_def)
  from submitToBackend_confirmationId
    [of env_healthy env_second request_A request_B "Some ''0xabc''" "Some ''0xdef''"] h
  show ?thesis by blast
qed

text \<open>
  C8 as written fails: two calls with the same election, voter and transaction
  hash, one second apart, return different confirmation ids.
\<close>

theorem confirmationId_changes_with_clock:
  "confirmationId (submitToBackend env_healthy request_A (Some ''0xabc''))
     = Some ''confirm_2000_2''
   \<and> confirmationId (submitToBackend (env_healthy\<lparr>now_backend := 3000\<rparr>) request_A (Some ''0xabc''))
     = Some ''confirm_3000_2''
   \<and> confirmationId (submitToBackend env_healthy request_A (Some ''0xabc''))
     \<noteq> confirmationId (submitToBackend (env_healthy\<lparr>now_backend := 3000\<rparr>) request_A
          (Some ''0xabc''))"
  by (simp add: model_defs run_defs)

section \<open>Cancelling a submission\<close>

text \<open>
  C9, as the code has it. cancelSubmission succeeds exactly when the submission id is
  still in the active queue, whatever the status of its record: pending, processing, or
  failed with a retry scheduled. It then removes the id from the queue and from the retry
  counts and sets the status of its record, if there is one, to rejected, changing nothing
  else. When the id is not in the queue it returns false and leaves the service unchanged.
\<close>

theorem cancelSubmission_iff_queued:
  "(fst (cancelSubmission svc vid) \<longleftrightarrow> submissionQueue svc vid \<noteq> None)
   \<and> (submissionQueue svc vid \<noteq> None \<longrightarrow>
        submissionQueue (snd (cancelSubmission svc vid)) = (submissionQueue svc)(vid := None)
        \<and> retryAttempts (snd (cancelSubmission svc vid)) = (retryAttempts svc)(vid := None)
        \<and> statusCache (snd (cancelSubmission svc vid))
            = (case statusCache svc vid of
                 None \<Rightarrow> statusCache svc
               | Some c \<Rightarrow> (statusCache svc)(vid \<mapsto> c\<lparr>status := Rejected\<rparr>)))
   \<and> (submissionQueue svc vid = None \<longrightarrow> snd (cancelSubmission svc vid) = svc)"
  by (simp add: cancelSubmission_def updateStatus_def split: option.splits)

theorem cancelSubmission_iff_queued_witness:
  "submissionQueue in_flight ''vote_rs_aaaaaa'' \<noteq> None
   \<and> fst (cancelSubmission in_flight ''vote_rs_aaaaaa'')
   \<and> submissionQueue (snd (cancelSubmission in_flight ''vote_rs_aaaaaa'')) ''vote_rs_aaaaaa'' = None
   \<and> submissionQueue empty_service ''vote_rs_aaaaaa'' = None
   \<and> snd (cancelSubmission empty_service ''vote_rs_aaaaaa'') = empty_service"
proof -
  have q: "submissionQueue in_flight ''vote_rs_aaaaaa'' \<noteq> None"
    by (simp add: model_defs run_defs)
  have e: "submissionQueue empty_service ''vote_rs_aaaaaa'' = None"
    by (simp add: empty_service_def)
  from cancelSubmission_iff_queued [of in_flight "''vote_rs_aaaaaa''"]
    cancelSubmission_iff_queued [of empty_service "''vote_rs_aaaaaa''"] q e
  show ?thesis by simp
qed

text \<open>
  C9 as written fails: a submission that is mid-flight, in status processing while
  submitVote waits for the ledger, is cancelled with success and its record changes to
  rejected.
\<close>

theorem processing_submission_is_cancelled:
  "status_of in_flight ''vote_rs_aaaaaa'' = Some Processing
   \<and> fst (cancelSubmission in_flight ''vote_rs_aaaaaa'') = True
   \<and> status_of (snd (cancelSubmission in_flight ''vote_rs_aaaaaa'')) ''vote_rs_aaaaaa''
       = Some Rejected
   \<and> submissionQueue (snd (cancelSubmission in_flight ''vote_rs_aaaaaa'')) ''vote_rs_aaaaaa''
       = None"
  by (simp add: model_defs run_defs)

section \<open>The duplicate-vote query never fails\<close>

text \<open>
  C10. For every contract address and voter address, hasVoterVoted resolves and never
  rejects; when the provider is not initialised or the contract call throws, it resolves
  to false, which is the very value it resolves to when the ledger answers that the voter
  has not voted.
\<close>

theorem hasVoterVoted_never_throws:
  "(\<exists>b. hasVoterVoted bc voters c a = Inr b)
   \<and> ((\<not> provider bc \<or> (\<exists>e. voters = Inl e)) \<longrightarrow> hasVoterVoted bc voters c a = Inr False)
   \<and> ((\<not> provider bc \<or> (\<exists>e. voters = Inl e)) \<longrightarrow>
        hasVoterVoted bc voters c a = hasVoterVoted \<lparr>provider = True, wallet = w\<rparr> (Inr False) c a)"
  by (cases voters) (auto simp: hasVoterVoted_def voters_query_def)

theorem hasVoterVoted_never_throws_witness:
  "hasVoterVoted \<lparr>provider = False, wallet = None\<rparr> (Inr True) ''0xc'' ''0xa'' = Inr False
   \<and> hasVoterVoted \<lparr>provider = True, wallet = None\<rparr> (Inl ''network error'') ''0xc'' ''0xa''
       = Inr False"
  using hasVoterVoted_never_throws [of "\<lparr>provider = False, wallet = None\<rparr>" "Inr True" "''0xc''" "''0xa''" None]
    hasVoterVoted_never_throws [of "\<lparr>provider = True, wallet = None\<rparr>" "Inl ''network error''" "''0xc''" "''0xa''" None]
  by simp

end
